theory Spec2Isabelle
  imports Complex_Main "HOL-Library.Log_Nat" "HOL-Library.AList" "HOL-Library.Word"
    "HOL-Library.Signed_Division" "HOL-Library.Char_ord" "HOL-Library.List_Lexorder"
    "HOL-Library.Monad_Syntax"
begin

section \<open>Gap Score reference validators\<close>

text \<open>
  A shallow embedding of the two reference validators of the Gap Score specification:
  the Go validator (\<^verbatim>\<open>validators/gap-score.go\<close>: \<^verbatim>\<open>classifyGap\<close>, \<^verbatim>\<open>round1\<close>,
  \<^verbatim>\<open>buildReport\<close>, \<^verbatim>\<open>main\<close>) and the shell validator (\<^verbatim>\<open>gap-score.sh\<close>).

  Go's \<^verbatim>\<open>int\<close> values are lengths and counts of slices held in memory; they are modelled
  as \<^typ>\<open>int\<close>. Go strings are byte strings, modelled as \<^typ>\<open>string\<close>; an absent JSON
  field is the empty string, as \<^verbatim>\<open>json.Unmarshal\<close> leaves it.
\<close>

subsection \<open>float64\<close>

text \<open>
  A finite \<^verbatim>\<open>float64\<close> is modelled by the rational number it denotes. Every arithmetic
  operation of the source computes the exact result and rounds it to the nearest
  binary64 value, ties to even (IEEE 754): \<open>fl\<close>. The model covers the normal range
  (no overflow to infinity, no subnormal results); every value computed by the
  validator lies far inside it. The score is computed by a division and two
  multiplications, each rounded on its own (there is no multiply-add to fuse).

  \<open>expo x\<close> is the binary exponent of \<open>x\<close>, that is \<open>\<lfloor>log\<^sub>2 \<bar>x\<bar>\<rfloor>\<close>, computed from the bit
  lengths of numerator and denominator; a binary64 value with this exponent is an
  integer multiple of \<open>2 powi (expo x - 52)\<close>.
\<close>

definition round_half_even :: "rat \<Rightarrow> int" where
  "round_half_even x =
     (let n = \<lfloor>x\<rfloor>; d = x - of_int n
      in if d < 1/2 then n else if 1/2 < d then n + 1 else if even n then n else n + 1)"

definition expo :: "rat \<Rightarrow> int" where
  "expo x =
     (let (p, q) = quotient_of \<bar>x\<bar>; d = bitlen p - bitlen q
      in if 2 powi d \<le> \<bar>x\<bar> then d else d - 1)"

definition fl :: "rat \<Rightarrow> rat" where
  "fl x = (if x = 0 then 0
           else let s = 2 powi (expo x - 52) in of_int (round_half_even (x / s)) * s)"

text \<open>\<^verbatim>\<open>float64(n)\<close> for an integer \<open>n\<close>, and the operators \<^verbatim>\<open>/\<close> and \<^verbatim>\<open>*\<close> on \<^verbatim>\<open>float64\<close>.\<close>

definition float64 :: "int \<Rightarrow> rat" where
  "float64 n = fl (of_int n)"

definition fdiv :: "rat \<Rightarrow> rat \<Rightarrow> rat" where
  "fdiv a b = fl (a / b)"

definition fmul :: "rat \<Rightarrow> rat \<Rightarrow> rat" where
  "fmul a b = fl (a * b)"

text \<open>
  \<^verbatim>\<open>math.Round\<close> of the Go standard library: the nearest integer, rounding half away from
  zero. Its result is an integer-valued \<^verbatim>\<open>float64\<close>, computed without rounding error.
\<close>

definition math_Round :: "rat \<Rightarrow> rat" where
  "math_Round x = (if x < 0 then - of_int \<lfloor>- x + 1/2\<rfloor> else of_int \<lfloor>x + 1/2\<rfloor>)"

subsection \<open>Data model of the Go validator\<close>

record levelDef =
  threshold :: rat
  name :: string
  indicator :: string

text \<open>The indicator glyphs are UTF-8 byte sequences.\<close>

definition glyph_check :: string where
  "glyph_check = [CHR 0xE2, CHR 0x9C, CHR 0x85]"

definition glyph_green :: string where
  "glyph_green = [CHR 0xF0, CHR 0x9F, CHR 0x9F, CHR 0xA2]"

definition glyph_yellow :: string where
  "glyph_yellow = [CHR 0xF0, CHR 0x9F, CHR 0x9F, CHR 0xA1]"

definition glyph_orange :: string where
  "glyph_orange = [CHR 0xF0, CHR 0x9F, CHR 0x9F, CHR 0xA0]"

definition glyph_red :: string where
  "glyph_red = [CHR 0xF0, CHR 0x9F, CHR 0x94, CHR 0xB4]"

definition specVersion :: string where
  "specVersion = ''1.0.0''"

definition categories :: "string list" where
  "categories = [''happy_path'', ''edge_case'', ''error_handling'', ''security'']"

definition levels :: "levelDef list" where
  "levels =
     [\<lparr>threshold = 0, name = ''perfect'', indicator = glyph_check\<rparr>,
      \<lparr>threshold = 15, name = ''minor'', indicator = glyph_green\<rparr>,
      \<lparr>threshold = 30, name = ''moderate'', indicator = glyph_yellow\<rparr>,
      \<lparr>threshold = 50, name = ''significant'', indicator = glyph_orange\<rparr>,
      \<lparr>threshold = 100, name = ''critical'', indicator = glyph_red\<rparr>]"

record TestResult =
  Name :: string
  Status :: string
  Category :: string
  Expected :: string
  Actual :: string
  Message :: string

text \<open>
  The fields of \<^verbatim>\<open>Failure\<close> other than \<^verbatim>\<open>TestName\<close> carry the prefix \<open>F\<close>: the source
  uses the names of the \<^verbatim>\<open>TestResult\<close> fields again.
\<close>

record Failure =
  TestName :: string
  FCategory :: string
  FExpected :: string
  FActual :: string
  FMessage :: string

record reportSummary =
  GapScore :: rat
  Level :: string

record testStats =
  Total :: int
  Passed :: int
  Failed :: int

record CategoryComparison =
  Sealed :: int
  Open :: int
  Delta :: int

text \<open>
  \<^verbatim>\<open>OpenTests\<close> is a pointer (\<open>None\<close> is \<^verbatim>\<open>nil\<close>). \<^verbatim>\<open>CoverageComparison\<close> is a Go map
  (\<open>None\<close> is the \<^verbatim>\<open>nil\<close> map): an association list with distinct keys, written with
  \<^const>\<open>AList.update\<close> and read with \<^const>\<open>map_of\<close>.
\<close>

record Report =
  SpecVersion :: string
  Report :: reportSummary
  SealedTests :: testStats
  OpenTests :: "testStats option"
  Failures :: "Failure list"
  CoverageComparison :: "(string \<times> CategoryComparison) list option"

subsection \<open>classifyGap and round1\<close>

fun classify_loop :: "levelDef list \<Rightarrow> rat \<Rightarrow> string \<times> string" where
  "classify_loop [] score = (''critical'', glyph_red)"
| "classify_loop (l # ls) score =
     (if score \<le> threshold l then (name l, indicator l) else classify_loop ls score)"

definition classifyGap :: "rat \<Rightarrow> string \<times> string" where
  "classifyGap score = classify_loop levels score"

definition round1 :: "rat \<Rightarrow> rat" where
  "round1 f = fdiv (math_Round (fmul f 10)) 10"

subsection \<open>buildReport\<close>

text \<open>
  The loops of \<^verbatim>\<open>buildReport\<close>, each a recursion over the slice it ranges over with the
  variable it updates as accumulator: \<^verbatim>\<open>rawFailures\<close> and \<^verbatim>\<open>failures\<close> grow by \<^verbatim>\<open>append\<close>,
  \<^verbatim>\<open>oFailed\<close>, \<^verbatim>\<open>sCount\<close> and \<^verbatim>\<open>oCount\<close> are counters, \<^verbatim>\<open>comparison\<close> is the map.
\<close>

fun rawFailures_loop :: "TestResult list \<Rightarrow> TestResult list \<Rightarrow> TestResult list" where
  "rawFailures_loop [] rawFailures = rawFailures"
| "rawFailures_loop (t # ts) rawFailures =
     rawFailures_loop ts (if Status t = ''failed'' then rawFailures @ [t] else rawFailures)"

fun failures_loop :: "TestResult list \<Rightarrow> Failure list \<Rightarrow> Failure list" where
  "failures_loop [] failures = failures"
| "failures_loop (f # fs) failures =
     (let cat = (if Category f = [] then ''unknown'' else Category f)
      in failures_loop fs
           (failures @ [\<lparr>TestName = Name f, FCategory = cat, FExpected = Expected f,
                          FActual = Actual f, FMessage = Message f\<rparr>]))"

fun oFailed_loop :: "TestResult list \<Rightarrow> int \<Rightarrow> int" where
  "oFailed_loop [] oFailed = oFailed"
| "oFailed_loop (t # ts) oFailed =
     oFailed_loop ts (if Status t = ''failed'' then oFailed + 1 else oFailed)"

fun count_loop :: "string \<Rightarrow> TestResult list \<Rightarrow> int \<Rightarrow> int" where
  "count_loop cat [] n = n"
| "count_loop cat (t # ts) n = count_loop cat ts (if Category t = cat then n + 1 else n)"

fun comparison_loop ::
  "string list \<Rightarrow> TestResult list \<Rightarrow> TestResult list \<Rightarrow>
   (string \<times> CategoryComparison) list \<Rightarrow> (string \<times> CategoryComparison) list" where
  "comparison_loop [] sealed opn comparison = comparison"
| "comparison_loop (cat # cats) sealed opn comparison =
     (let sCount = count_loop cat sealed 0; oCount = count_loop cat opn 0
      in comparison_loop cats sealed opn
           (AList.update cat \<lparr>Sealed = sCount, Open = oCount, Delta = sCount - oCount\<rparr>
              comparison))"

text \<open>
  The score of lines 130 to 133: the zero value of \<^verbatim>\<open>float64\<close> unless \<^verbatim>\<open>total > 0\<close>, else
  \<^verbatim>\<open>round1(float64(len(rawFailures)) / float64(total) * 100)\<close>.
\<close>

definition score_of :: "int \<Rightarrow> int \<Rightarrow> rat" where
  "score_of nfailed ntotal =
     (if ntotal > 0 then round1 (fmul (fdiv (float64 nfailed) (float64 ntotal)) 100) else 0)"

definition buildReport :: "TestResult list \<Rightarrow> TestResult list \<Rightarrow> bool \<Rightarrow> Report" where
  "buildReport sealed opn hasOpen =
     (let ntotal = int (length sealed);
          rawFailures = rawFailures_loop sealed [];
          passed = ntotal - int (length rawFailures);
          score = score_of (int (length rawFailures)) ntotal;
          level = fst (classifyGap score);
          failures = failures_loop rawFailures [];
          report = \<lparr>SpecVersion = specVersion,
                    Report = \<lparr>GapScore = score, Level = level\<rparr>,
                    SealedTests = \<lparr>Total = ntotal, Passed = passed,
                                   Failed = int (length rawFailures)\<rparr>,
                    OpenTests = None,
                    Failures = failures,
                    CoverageComparison = None\<rparr>
      in if hasOpen then
           (let oTotal = int (length opn);
                oFailed = oFailed_loop opn 0
            in report\<lparr>OpenTests := Some \<lparr>Total = oTotal, Passed = oTotal - oFailed,
                                           Failed = oFailed\<rparr>,
                      CoverageComparison := Some (comparison_loop categories sealed opn [])\<rparr>)
         else report)"

subsection \<open>The formatter's field presence\<close>

text \<open>
  \<^verbatim>\<open>json.MarshalIndent\<close> writes the fields of \<^verbatim>\<open>Report\<close> in declaration order under the
  names of their struct tags. A field tagged \<^verbatim>\<open>omitempty\<close> is left out when it is a
  \<^verbatim>\<open>nil\<close> pointer or a map of length zero (\<^verbatim>\<open>nil\<close> or not).
\<close>

definition json_keys :: "Report \<Rightarrow> string list" where
  "json_keys r =
     [''gap_score_spec_version'', ''report'', ''sealed_tests'']
     @ (case OpenTests r of None \<Rightarrow> [] | Some s \<Rightarrow> [''open_tests''])
     @ [''failures'']
     @ (case CoverageComparison r of None \<Rightarrow> []
        | Some m \<Rightarrow> if length m = 0 then [] else [''coverage_comparison''])"

subsection \<open>The structured formatter and its parser\<close>

text \<open>
  Modelled from the spec: the structured formatter is \<^verbatim>\<open>json.MarshalIndent\<close> and its parser
  \<^verbatim>\<open>json.Unmarshal\<close>, of Go's \<^verbatim>\<open>encoding/json\<close>, whose code is not in the repository.
  The model follows the output format of the specification, the struct tags of the
  source and the documentation of the package, at the level of the JSON document:
  the bytes written are the rendering of the document with two-space indentation, the
  same function of the document each time.

  \<^verbatim>\<open>Marshal\<close> writes the fields of a struct in declaration order under the names of
  their tags, leaves out a field tagged \<^verbatim>\<open>omitempty\<close> when it is a \<^verbatim>\<open>nil\<close> pointer or a
  map of length zero (\<^verbatim>\<open>nil\<close> or not), and writes the entries of a map sorted by key. An
  integer is written as a number; a \<^verbatim>\<open>float64\<close> is written as the shortest decimal that
  reads back as the same \<^verbatim>\<open>float64\<close>, and the document holds the number it stands for,
  the \<^verbatim>\<open>float64\<close> itself. Strings are text as \<^verbatim>\<open>json.Unmarshal\<close> produced it, which the
  escaping of \<^verbatim>\<open>Marshal\<close> preserves.

  \<^verbatim>\<open>Unmarshal\<close> fills a zero value: a key that is absent or \<^verbatim>\<open>null\<close> leaves its field as it
  is, of a repeated key the last occurrence counts, a number with a fraction is an error
  for an integer field, a value of the wrong kind is an error, and the entries of an
  object are stored into a map in the order of the document. Keys are matched as the
  formatter writes them.
\<close>

datatype json =
    JNull
  | JNumber rat
  | JString string
  | JArray "json list"
  | JObject "(string \<times> json) list"

definition marshal_reportSummary :: "reportSummary \<Rightarrow> json" where
  "marshal_reportSummary s =
     JObject [(''gap_score'', JNumber (GapScore s)), (''level'', JString (Level s))]"

definition marshal_testStats :: "testStats \<Rightarrow> json" where
  "marshal_testStats s =
     JObject [(''total'', JNumber (of_int (Total s))), (''passed'', JNumber (of_int (Passed s))),
              (''failed'', JNumber (of_int (Failed s)))]"

definition marshal_Failure :: "Failure \<Rightarrow> json" where
  "marshal_Failure f =
     JObject [(''test_name'', JString (TestName f)), (''category'', JString (FCategory f)),
              (''expected'', JString (FExpected f)), (''actual'', JString (FActual f)),
              (''message'', JString (FMessage f))]"

definition marshal_CategoryComparison :: "CategoryComparison \<Rightarrow> json" where
  "marshal_CategoryComparison c =
     JObject [(''sealed'', JNumber (of_int (Sealed c))), (''open'', JNumber (of_int (Open c))),
              (''delta'', JNumber (of_int (Delta c)))]"

text \<open>
  Modelled from the spec: the structured formatter, \<^verbatim>\<open>json.MarshalIndent\<close> applied to a
  \<^verbatim>\<open>Report\<close>, as the document it writes.
\<close>

definition marshal_Report :: "Report \<Rightarrow> json" where
  "marshal_Report r =
     JObject
       ([(''gap_score_spec_version'', JString (SpecVersion r)),
         (''report'', marshal_reportSummary (Report r)),
         (''sealed_tests'', marshal_testStats (SealedTests r))]
        @ (case OpenTests r of None \<Rightarrow> [] | Some s \<Rightarrow> [(''open_tests'', marshal_testStats s)])
        @ [(''failures'', JArray (map marshal_Failure (Failures r)))]
        @ (case CoverageComparison r of None \<Rightarrow> []
           | Some m \<Rightarrow>
               if length m = 0 then []
               else [(''coverage_comparison'',
                      JObject (map (\<lambda>(k, c). (k, marshal_CategoryComparison c))
                                 (sort_key fst m)))]))"

definition member :: "(string \<times> json) list \<Rightarrow> string \<Rightarrow> json" where
  "member kvs k = (case map_of (rev kvs) k of None \<Rightarrow> JNull | Some j \<Rightarrow> j)"

fun unmarshal_int :: "json \<Rightarrow> int option" where
  "unmarshal_int JNull = Some 0"
| "unmarshal_int (JNumber q) = (if of_int \<lfloor>q\<rfloor> = q then Some \<lfloor>q\<rfloor> else None)"
| "unmarshal_int j = None"

fun unmarshal_float64 :: "json \<Rightarrow> rat option" where
  "unmarshal_float64 JNull = Some 0"
| "unmarshal_float64 (JNumber q) = Some q"
| "unmarshal_float64 j = None"

fun unmarshal_string :: "json \<Rightarrow> string option" where
  "unmarshal_string JNull = Some []"
| "unmarshal_string (JString s) = Some s"
| "unmarshal_string j = None"

fun unmarshal_reportSummary :: "json \<Rightarrow> reportSummary option" where
  "unmarshal_reportSummary JNull = Some \<lparr>GapScore = 0, Level = []\<rparr>"
| "unmarshal_reportSummary (JObject kvs) =
     do { g \<leftarrow> unmarshal_float64 (member kvs ''gap_score'');
          l \<leftarrow> unmarshal_string (member kvs ''level'');
          Some \<lparr>GapScore = g, Level = l\<rparr> }"
| "unmarshal_reportSummary j = None"

fun unmarshal_testStats :: "json \<Rightarrow> testStats option" where
  "unmarshal_testStats JNull = Some \<lparr>Total = 0, Passed = 0, Failed = 0\<rparr>"
| "unmarshal_testStats (JObject kvs) =
     do { t \<leftarrow> unmarshal_int (member kvs ''total'');
          p \<leftarrow> unmarshal_int (member kvs ''passed'');
          f \<leftarrow> unmarshal_int (member kvs ''failed'');
          Some \<lparr>Total = t, Passed = p, Failed = f\<rparr> }"
| "unmarshal_testStats j = None"

fun unmarshal_Failure :: "json \<Rightarrow> Failure option" where
  "unmarshal_Failure JNull =
     Some \<lparr>TestName = [], FCategory = [], FExpected = [], FActual = [], FMessage = []\<rparr>"
| "unmarshal_Failure (JObject kvs) =
     do { n \<leftarrow> unmarshal_string (member kvs ''test_name'');
          c \<leftarrow> unmarshal_string (member kvs ''category'');
          e \<leftarrow> unmarshal_string (member kvs ''expected'');
          a \<leftarrow> unmarshal_string (member kvs ''actual'');
          m \<leftarrow> unmarshal_string (member kvs ''message'');
          Some \<lparr>TestName = n, FCategory = c, FExpected = e, FActual = a, FMessage = m\<rparr> }"
| "unmarshal_Failure j = None"

fun unmarshal_CategoryComparison :: "json \<Rightarrow> CategoryComparison option" where
  "unmarshal_CategoryComparison JNull = Some \<lparr>Sealed = 0, Open = 0, Delta = 0\<rparr>"
| "unmarshal_CategoryComparison (JObject kvs) =
     do { s \<leftarrow> unmarshal_int (member kvs ''sealed'');
          p \<leftarrow> unmarshal_int (member kvs ''open'');
          d \<leftarrow> unmarshal_int (member kvs ''delta'');
          Some \<lparr>Sealed = s, Open = p, Delta = d\<rparr> }"
| "unmarshal_CategoryComparison j = None"

fun unmarshal_entries ::
  "(string \<times> json) list \<Rightarrow> (string \<times> CategoryComparison) list \<Rightarrow>
   (string \<times> CategoryComparison) list option" where
  "unmarshal_entries [] m = Some m"
| "unmarshal_entries ((k, j) # kvs) m =
     do { c \<leftarrow> unmarshal_CategoryComparison j;
          unmarshal_entries kvs (AList.update k c m) }"

fun unmarshal_OpenTests :: "json \<Rightarrow> testStats option option" where
  "unmarshal_OpenTests JNull = Some None"
| "unmarshal_OpenTests j = map_option Some (unmarshal_testStats j)"

fun unmarshal_Failures :: "json \<Rightarrow> Failure list option" where
  "unmarshal_Failures JNull = Some []"
| "unmarshal_Failures (JArray js) = those (map unmarshal_Failure js)"
| "unmarshal_Failures j = None"

fun unmarshal_CoverageComparison :: "json \<Rightarrow> (string \<times> CategoryComparison) list option option" where
  "unmarshal_CoverageComparison JNull = Some None"
| "unmarshal_CoverageComparison (JObject kvs) = map_option Some (unmarshal_entries kvs [])"
| "unmarshal_CoverageComparison j = None"

text \<open>
  Modelled from the spec: the parser, \<^verbatim>\<open>json.Unmarshal\<close> of a document into a zero
  \<^verbatim>\<open>Report\<close>; \<open>None\<close> is its error.
\<close>

fun unmarshal_Report :: "json \<Rightarrow> Report option" where
  "unmarshal_Report (JObject kvs) =
     do { v \<leftarrow> unmarshal_string (member kvs ''gap_score_spec_version'');
          s \<leftarrow> unmarshal_reportSummary (member kvs ''report'');
          st \<leftarrow> unmarshal_testStats (member kvs ''sealed_tests'');
          ot \<leftarrow> unmarshal_OpenTests (member kvs ''open_tests'');
          fs \<leftarrow> unmarshal_Failures (member kvs ''failures'');
          cc \<leftarrow> unmarshal_CoverageComparison (member kvs ''coverage_comparison'');
          Some \<lparr>SpecVersion = v, Report = s, SealedTests = st, OpenTests = ot,
                 Failures = fs, CoverageComparison = cc\<rparr> }"
| "unmarshal_Report j = None"

text \<open>
  A Go map has no order of its own. \<open>in_key_order r\<close> is the report \<open>r\<close> with the entries
  of its map listed by ascending key; as maps the two are equal.
\<close>

definition in_key_order :: "Report \<Rightarrow> Report" where
  "in_key_order r = r\<lparr>CoverageComparison := map_option (sort_key fst) (CoverageComparison r)\<rparr>"

subsection \<open>main\<close>

text \<open>
  The command line after \<^verbatim>\<open>flag.Parse\<close>: the three string flags, and the two variables
  the \<^verbatim>\<open>threshold\<close> flag sets. \<^verbatim>\<open>strconv.ParseFloat\<close> returns the \<^verbatim>\<open>float64\<close> nearest to
  the decimal it reads. Reading and parsing a file is the parameter \<open>files\<close> of
  \<open>loadResults\<close>: the tests of the file at a path, or the error.
\<close>

record Flags =
  sealedPath :: string
  openPath :: string
  format :: string
  thresholdVal :: rat
  hasThreshold :: bool

datatype load_error = ReadFile_error | Unmarshal_error

type_synonym files = "string \<Rightarrow> load_error + TestResult list"

definition loadResults :: "files \<Rightarrow> string \<Rightarrow> load_error + TestResult list" where
  "loadResults files path = (case files path of Inl err \<Rightarrow> Inl err | Inr tests \<Rightarrow> Inr tests)"

text \<open>
  Standard output, one value per \<^verbatim>\<open>Printf\<close> or \<^verbatim>\<open>Println\<close> call with the arguments it
  prints, and the exit code of the process. \<^verbatim>\<open>json.MarshalIndent\<close> fails only on a value
  it cannot encode; a \<^verbatim>\<open>Report\<close> holds strings, integers and a finite score, so the
  error exit of the JSON branch is never taken.
  Messages on standard error are left out.
\<close>

datatype out_line =
    Headline rat string string
  | SealedLine int int
  | OpenLine int int
  | FailuresHeader int
  | FailureLine string string
  | JsonDocument json

record Run =
  stdout :: "out_line list"
  exit_code :: int

definition summary_lines :: "Report \<Rightarrow> out_line list" where
  "summary_lines report =
     (let score = GapScore (Report report);
          level = Level (Report report);
          indicator = snd (classifyGap score)
      in [Headline score indicator level,
          SealedLine (Passed (SealedTests report)) (Total (SealedTests report))]
         @ (case OpenTests report of None \<Rightarrow> []
            | Some ot \<Rightarrow> [OpenLine (Passed ot) (Total ot)])
         @ (if length (Failures report) > 0
            then FailuresHeader (int (length (Failures report)))
                 # map (\<lambda>f. FailureLine (TestName f) (FMessage f)) (Failures report)
            else []))"

definition main :: "Flags \<Rightarrow> files \<Rightarrow> Run" where
  "main flags files =
     (if sealedPath flags = [] then \<lparr>stdout = [], exit_code = 2\<rparr>
      else case loadResults files (sealedPath flags) of
        Inl err \<Rightarrow> \<lparr>stdout = [], exit_code = 2\<rparr>
      | Inr sealed \<Rightarrow>
          (let hasOpen = (openPath flags \<noteq> [])
           in case (if hasOpen then loadResults files (openPath flags) else Inr []) of
             Inl err \<Rightarrow> \<lparr>stdout = [], exit_code = 2\<rparr>
           | Inr opn \<Rightarrow>
               (let report = buildReport sealed opn hasOpen;
                    out = (if format flags = ''summary'' then summary_lines report
                           else [JsonDocument (marshal_Report report)])
                in if hasThreshold flags \<and> GapScore (Report report) > thresholdVal flags
                   then \<lparr>stdout = out, exit_code = 1\<rparr>
                   else \<lparr>stdout = out, exit_code = 0\<rparr>)))"

subsection \<open>The shell validator\<close>

text \<open>
  \<^verbatim>\<open>gap-score.sh <sealed_total> <sealed_failed> [threshold]\<close>. Shell arithmetic is signed
  64-bit arithmetic: a product wraps around, a division truncates toward zero, and
  \<^verbatim>\<open>-eq\<close>, \<^verbatim>\<open>-le\<close> and \<^verbatim>\<open>-gt\<close> compare signed values. The two counts are integers
  of that range. The threshold is absent (or empty), an integer of that range, or a
  number written with a decimal point, such as \<^verbatim>\<open>11.1\<close>: on the latter the expansion
  \<^verbatim>\<open>$(( THRESHOLD * 10 ))\<close> is an error, and the script, having printed its first two
  lines, ends with exit status 1. Arguments that are no numbers are outside the model.
  Each \<^verbatim>\<open>echo\<close> is a value with the variables it prints.
\<close>

type_synonym sh_int = "64 word"

datatype sh_threshold = No_threshold | Int_threshold sh_int | Decimal_threshold rat

definition sh_div :: "sh_int \<Rightarrow> sh_int \<Rightarrow> sh_int" where
  "sh_div a b = word_of_int (sint a sdiv sint b)"

definition sh_mod :: "sh_int \<Rightarrow> sh_int \<Rightarrow> sh_int" where
  "sh_mod a b = word_of_int (sint a smod sint b)"

datatype sh_line =
    NoSealedTests
  | ScoreLine sh_int sh_int string string
  | SealedCounts sh_int sh_int sh_int
  | FailThreshold sh_int sh_int sh_int
  | PassThreshold sh_int sh_int sh_int

definition GAP_SCORE_X10 :: "sh_int \<Rightarrow> sh_int \<Rightarrow> sh_int" where
  "GAP_SCORE_X10 SEALED_TOTAL SEALED_FAILED = sh_div (SEALED_FAILED * 1000) SEALED_TOTAL"

definition sh_level :: "sh_int \<Rightarrow> string \<times> string" where
  "sh_level x10 =
     (if x10 = 0 then (''perfect'', glyph_check)
      else if word_sle x10 150 then (''minor'', glyph_green)
      else if word_sle x10 300 then (''moderate'', glyph_yellow)
      else if word_sle x10 500 then (''significant'', glyph_orange)
      else (''critical'', glyph_red))"

definition gap_score_sh :: "sh_int \<Rightarrow> sh_int \<Rightarrow> sh_threshold \<Rightarrow> sh_line list \<times> int" where
  "gap_score_sh SEALED_TOTAL SEALED_FAILED THRESHOLD =
     (if SEALED_TOTAL = 0 then ([NoSealedTests], 0)
      else
        (let x10 = GAP_SCORE_X10 SEALED_TOTAL SEALED_FAILED;
             GAP_WHOLE = sh_div x10 10;
             GAP_DECIMAL = sh_mod x10 10;
             (LEVEL, INDICATOR) = sh_level x10;
             SEALED_PASSED = SEALED_TOTAL - SEALED_FAILED;
             out = [ScoreLine GAP_WHOLE GAP_DECIMAL INDICATOR LEVEL,
                    SealedCounts SEALED_PASSED SEALED_TOTAL SEALED_FAILED]
         in case THRESHOLD of
              No_threshold \<Rightarrow> (out, 0)
            | Decimal_threshold q \<Rightarrow> (out, 1)
            | Int_threshold thr \<Rightarrow>
                (let THRESHOLD_X10 = thr * 10
                 in if word_sless THRESHOLD_X10 x10
                    then (out @ [FailThreshold GAP_WHOLE GAP_DECIMAL thr], 1)
                    else (out @ [PassThreshold GAP_WHOLE GAP_DECIMAL thr], 0))))"

subsection \<open>The rounding rule of the specification\<close>

text \<open>
  Rounding a rational to one decimal digit, half away from zero, in exact arithmetic; and
  the raw percentage \<open>failed / total * 100\<close> of a result set, also exact.
\<close>

definition round_half_away_1dp :: "rat \<Rightarrow> rat" where
  "round_half_away_1dp r = sgn r * of_int \<lfloor>\<bar>r\<bar> * 10 + 1/2\<rfloor> / 10"

text \<open>
  The argument of \<^verbatim>\<open>math.Round\<close> when \<^verbatim>\<open>buildReport\<close> calls \<^verbatim>\<open>round1\<close>: the product
  \<^verbatim>\<open>float64(failed) / float64(total) * 100 * 10\<close> in \<^verbatim>\<open>float64\<close> arithmetic.
\<close>

definition float_product :: "int \<Rightarrow> int \<Rightarrow> rat" where
  "float_product nfailed ntotal = fmul (fmul (fdiv (float64 nfailed) (float64 ntotal)) 100) 10"

definition raw_percent :: "TestResult list \<Rightarrow> rat" where
  "raw_percent sealed =
     of_nat (length (filter (\<lambda>t. Status t = ''failed'') sealed)) / of_nat (length sealed) * 100"

subsection \<open>Sample inputs\<close>

text \<open>
  Result sets and command lines on which the theorems below are instantiated:
  \<open>sealed_of k n\<close> has \<open>k\<close> failed tests followed by \<open>n\<close> passed ones; \<open>mixed_sealed\<close>
  and \<open>mixed_open\<close> use statuses and categories outside the documented ones and a
  failed test with no category.
\<close>

definition test_case :: "string \<Rightarrow> string \<Rightarrow> string \<Rightarrow> string \<Rightarrow> TestResult" where
  "test_case n st cat msg =
     \<lparr>Name = n, Status = st, Category = cat, Expected = [], Actual = [], Message = msg\<rparr>"

definition sealed_of :: "nat \<Rightarrow> nat \<Rightarrow> TestResult list" where
  "sealed_of k n =
     replicate k (test_case ''t_fail'' ''failed'' ''edge_case'' ''boom'')
     @ replicate n (test_case ''t_pass'' ''passed'' ''happy_path'' [])"

definition mixed_sealed :: "TestResult list" where
  "mixed_sealed =
     [test_case ''test_login'' ''passed'' ''happy_path'' [],
      test_case ''test_rejects_gpl_dependency'' ''failed'' ''security'' ''GPL dependency not blocked'',
      test_case ''test_flaky'' ''skipped'' ''edge_case'' [],
      test_case ''test_no_category'' ''failed'' [] ''no category given'',
      test_case ''test_crash'' ''error'' ''performance'' ''runner crashed'',
      test_case ''test_rejects_gpl_dependency'' ''failed'' ''security'' ''GPL dependency not blocked'']"

definition mixed_open :: "TestResult list" where
  "mixed_open =
     [test_case ''o_login'' ''passed'' ''happy_path'' [],
      test_case ''o_logout'' ''failed'' ''happy_path'' ''open failure'',
      test_case ''o_other'' ''skipped'' ''performance'' []]"

definition flags_of :: "string \<Rightarrow> string \<Rightarrow> rat option \<Rightarrow> Flags" where
  "flags_of opath fmt thr =
     \<lparr>sealedPath = ''sealed.json'', openPath = opath, format = fmt,
      thresholdVal = (case thr of None \<Rightarrow> 0 | Some v \<Rightarrow> v),
      hasThreshold = (thr \<noteq> None)\<rparr>"

definition files_of :: "TestResult list \<Rightarrow> TestResult list \<Rightarrow> files" where
  "files_of sealed opn path = (if path = ''sealed.json'' then Inr sealed else Inr opn)"

section \<open>Properties\<close>

subsection \<open>The loops of buildReport\<close>

lemma rawFailures_loop_filter:
  "rawFailures_loop ts acc = acc @ filter (\<lambda>t. Status t = ''failed'') ts"
  by (induction ts arbitrary: acc) auto

lemma failures_loop_map:
  "failures_loop fs acc =
     acc @ map (\<lambda>f. \<lparr>TestName = Name f,
                      FCategory = (if Category f = [] then ''unknown'' else Category f),
                      FExpected = Expected f, FActual = Actual f, FMessage = Message f\<rparr>) fs"
  by (induction fs arbitrary: acc) (auto simp: Let_def)

lemma oFailed_loop_count:
  "oFailed_loop ts n = n + int (length (filter (\<lambda>t. Status t = ''failed'') ts))"
  by (induction ts arbitrary: n) auto

lemma count_loop_count:
  "count_loop cat ts n = n + int (length (filter (\<lambda>t. Category t = cat) ts))"
  by (induction ts arbitrary: n) auto

lemma comparison_loop_new:
  "distinct cats \<Longrightarrow> set cats \<inter> fst ` set acc = {} \<Longrightarrow>
   comparison_loop cats sealed opn acc =
     acc @ map (\<lambda>c. (c, \<lparr>Sealed = count_loop c sealed 0, Open = count_loop c opn 0,
                          Delta = count_loop c sealed 0 - count_loop c opn 0\<rparr>)) cats"
proof (induction cats arbitrary: acc)
  case Nil
  then show ?case by simp
next
  case (Cons c cs)
  from Cons.prems have notin: "c \<notin> fst ` set acc" by auto
  then have upd: "AList.update c v acc = acc @ [(c, v)]" for v
    by (induction acc) auto
  show ?case using Cons.prems notin
    by (simp add: Let_def upd Cons.IH)
qed

subsection \<open>The fields of a report\<close>

lemma Failures_buildReport:
  "Failures (buildReport sealed opn hasOpen) =
     map (\<lambda>f. \<lparr>TestName = Name f,
                FCategory = (if Category f = [] then ''unknown'' else Category f),
                FExpected = Expected f, FActual = Actual f, FMessage = Message f\<rparr>)
       (filter (\<lambda>t. Status t = ''failed'') sealed)"
  by (simp add: buildReport_def Let_def rawFailures_loop_filter failures_loop_map)

lemma SealedTests_buildReport:
  "SealedTests (buildReport sealed opn hasOpen) =
     \<lparr>Total = int (length sealed),
      Passed = int (length sealed) - int (length (filter (\<lambda>t. Status t = ''failed'') sealed)),
      Failed = int (length (filter (\<lambda>t. Status t = ''failed'') sealed))\<rparr>"
  by (simp add: buildReport_def Let_def rawFailures_loop_filter)

lemma OpenTests_buildReport:
  "OpenTests (buildReport sealed opn hasOpen) =
     (if hasOpen then
        Some \<lparr>Total = int (length opn),
              Passed = int (length opn) - int (length (filter (\<lambda>t. Status t = ''failed'') opn)),
              Failed = int (length (filter (\<lambda>t. Status t = ''failed'') opn))\<rparr>
      else None)"
  by (simp add: buildReport_def Let_def oFailed_loop_count)

lemma GapScore_buildReport:
  "GapScore (Report (buildReport sealed opn hasOpen)) =
     score_of (int (length (filter (\<lambda>t. Status t = ''failed'') sealed))) (int (length sealed))"
  by (simp add: buildReport_def Let_def rawFailures_loop_filter)

lemma Level_buildReport:
  "Level (Report (buildReport sealed opn hasOpen)) =
     fst (classifyGap (GapScore (Report (buildReport sealed opn hasOpen))))"
  by (simp add: buildReport_def Let_def)

lemma CoverageComparison_buildReport:
  "CoverageComparison (buildReport sealed opn hasOpen) =
     (if hasOpen then
        Some (map (\<lambda>c. (c, \<lparr>Sealed = int (length (filter (\<lambda>t. Category t = c) sealed)),
                             Open = int (length (filter (\<lambda>t. Category t = c) opn)),
                             Delta = int (length (filter (\<lambda>t. Category t = c) sealed))
                                     - int (length (filter (\<lambda>t. Category t = c) opn))\<rparr>))
                [''happy_path'', ''edge_case'', ''error_handling'', ''security''])
      else None)"
proof -
  have d: "distinct categories" by (simp add: categories_def)
  have "comparison_loop categories sealed opn [] =
     map (\<lambda>c. (c, \<lparr>Sealed = count_loop c sealed 0, Open = count_loop c opn 0,
                          Delta = count_loop c sealed 0 - count_loop c opn 0\<rparr>)) categories"
    using comparison_loop_new[OF d, of "[]" sealed opn] by simp
  then show ?thesis
    by (simp add: buildReport_def Let_def count_loop_count categories_def)
qed

lemma classifyGap_cases:
  "classifyGap s =
     (if s \<le> 0 then (''perfect'', glyph_check)
      else if s \<le> 15 then (''minor'', glyph_green)
      else if s \<le> 30 then (''moderate'', glyph_yellow)
      else if s \<le> 50 then (''significant'', glyph_orange)
      else (''critical'', glyph_red))"
  by (simp add: classifyGap_def levels_def)

lemma main_loaded:
  assumes "sealedPath flags \<noteq> []"
    and "files (sealedPath flags) = Inr sealed"
    and "files (openPath flags) = Inr opn \<or> openPath flags = []"
  shows "exit_code (main flags files) =
     (if hasThreshold flags \<and>
         thresholdVal flags
           < GapScore (Report (buildReport sealed (if openPath flags = [] then [] else opn)
                                 (openPath flags \<noteq> [])))
      then 1 else 0)"
  using assms by (auto simp: main_def loadResults_def Let_def)

subsection \<open>Rounding to float64\<close>

text \<open>
  The exponent chosen by \<open>expo\<close> brackets its argument, so that \<open>fl\<close> moves a value by
  at most the fraction \<open>1 / 2 ^ 53\<close> of it, keeps non-negative values non-negative and
  leaves integers below \<open>2 ^ 53\<close> as they are.
\<close>

lemma of_int_bitlen_bounds:
  assumes "0 < p"
  shows "(2::rat) powi (bitlen p - 1) \<le> of_int p" and "of_int p < (2::rat) powi (bitlen p)"
proof -
  from bitlen_bounds [OF assms]
  have lo: "2 ^ nat (bitlen p - 1) \<le> p" and hi: "p < 2 ^ nat (bitlen p)" by simp_all
  from assms have b1: "1 \<le> bitlen p"
    using bitlen_eq_zero_iff [of p] bitlen_nonneg [of p] by linarith
  have "(2::rat) powi (bitlen p - 1) = 2 ^ nat (bitlen p - 1)"
    using b1 by (simp add: power_int_def)
  also have "\<dots> = of_int (2 ^ nat (bitlen p - 1))" by simp
  also have "\<dots> \<le> of_int p" using lo by (simp only: of_int_le_iff)
  finally show "(2::rat) powi (bitlen p - 1) \<le> of_int p" .
  have "(of_int p :: rat) < of_int (2 ^ nat (bitlen p))" using hi by (simp only: of_int_less_iff)
  also have "\<dots> = 2 ^ nat (bitlen p)" by simp
  also have "\<dots> = 2 powi (bitlen p)" using b1 by (simp add: power_int_def)
  finally show "of_int p < (2::rat) powi (bitlen p)" .
qed

lemma expo_bounds:
  assumes "x \<noteq> 0"
  shows "2 powi (expo x) \<le> \<bar>x\<bar>" and "\<bar>x\<bar> < 2 powi (expo x + 1)"
proof -
  obtain p q where pq: "quotient_of \<bar>x\<bar> = (p, q)" by force
  have q: "0 < q" using quotient_of_denom_pos [OF pq] .
  have x: "\<bar>x\<bar> = of_int p / of_int q" using quotient_of_div [OF pq] .
  have p: "0 < p"
  proof -
    from assms have "0 < \<bar>x\<bar>" by simp
    with x q show ?thesis by (simp add: zero_less_divide_iff)
  qed
  let ?a = "bitlen p" and ?b = "bitlen q"
  note pb = of_int_bitlen_bounds [OF p] and qb = of_int_bitlen_bounds [OF q]
  have qpos: "(0::rat) < of_int q" using q by simp
  have ppos: "(0::rat) \<le> of_int p" using p by simp
  have up: "\<bar>x\<bar> < 2 powi (?a - ?b + 1)"
  proof -
    have "of_int p / of_int q < 2 powi ?a / (2::rat) powi (?b - 1)"
      by (rule frac_less [OF ppos pb(2) _ qb(1)]) simp
    also have "\<dots> = 2 powi (?a - (?b - 1))"
      by (rule power_int_diff [symmetric]) simp
    also have "\<dots> = 2 powi (?a - ?b + 1)"
      by (rule arg_cong [where f = "power_int 2"]) linarith
    finally show ?thesis unfolding x .
  qed
  have lo: "2 powi (?a - ?b - 1) < \<bar>x\<bar>"
  proof -
    have "2 powi (?a - ?b - 1) = (2::rat) powi ((?a - 1) - ?b)"
      by (rule arg_cong [where f = "power_int 2"]) linarith
    also have "\<dots> = 2 powi (?a - 1) / (2::rat) powi ?b"
      by (rule power_int_diff) simp
    also have "\<dots> < of_int p / of_int q"
      by (rule frac_less2 [OF _ pb(1) qpos qb(2)]) simp
    finally show ?thesis unfolding x .
  qed
  have e: "expo x = (if 2 powi (?a - ?b) \<le> \<bar>x\<bar> then ?a - ?b else ?a - ?b - 1)"
    by (simp add: expo_def pq Let_def)
  show "2 powi (expo x) \<le> \<bar>x\<bar>"
    using lo by (simp add: e)
  show "\<bar>x\<bar> < 2 powi (expo x + 1)"
    using up by (auto simp: e not_le)
qed

lemma round_half_even_err: "\<bar>of_int (round_half_even m) - m\<bar> \<le> 1 / 2"
proof -
  have "of_int \<lfloor>m\<rfloor> \<le> m" "m < of_int \<lfloor>m\<rfloor> + 1" by linarith+
  then show ?thesis
    by (auto simp: round_half_even_def Let_def)
qed

lemma round_half_even_of_int: "round_half_even (of_int z) = z"
  by (simp add: round_half_even_def)

lemma fl_err: "\<bar>fl x - x\<bar> \<le> \<bar>x\<bar> / 2 ^ 53"
proof (cases "x = 0")
  case True
  then show ?thesis by (simp add: fl_def)
next
  case False
  define s :: rat where "s = 2 powi (expo x - 52)"
  have spos: "0 < s" by (simp add: s_def)
  have f: "fl x = of_int (round_half_even (x / s)) * s"
    using False by (simp add: fl_def s_def Let_def)
  have "fl x - x = (of_int (round_half_even (x / s)) - x / s) * s"
    using spos by (simp add: f algebra_simps)
  then have "\<bar>fl x - x\<bar> = \<bar>of_int (round_half_even (x / s)) - x / s\<bar> * s"
    using spos by (simp add: abs_mult)
  also have "\<dots> \<le> 1 / 2 * s"
    using round_half_even_err [of "x / s"] spos by (simp add: mult_right_mono)
  also have "1 / 2 * s = 2 powi (expo x) / 2 ^ 53"
  proof -
    have "s = 2 powi (expo x) / 2 powi 52"
      unfolding s_def by (rule power_int_diff) simp
    then show ?thesis by simp
  qed
  also have "\<dots> \<le> \<bar>x\<bar> / 2 ^ 53"
    using expo_bounds(1) [OF False] by (simp add: divide_right_mono)
  finally show ?thesis .
qed

lemma fl_nonneg: "0 \<le> x \<Longrightarrow> 0 \<le> fl x"
proof -
  assume x: "0 \<le> x"
  have "\<bar>x\<bar> / 2 ^ 53 \<le> \<bar>x\<bar>" by (simp add: divide_le_eq)
  with fl_err [of x] x show ?thesis by linarith
qed

lemma fl_of_int_exact:
  assumes "0 \<le> n" "n < 2 ^ 53"
  shows "fl (of_int n) = of_int n"
proof (cases "n = 0")
  case True
  then show ?thesis by (simp add: fl_def)
next
  case False
  with assms have n: "1 \<le> n" by simp
  let ?x = "of_int n :: rat"
  have nz: "?x \<noteq> 0" using False by simp
  let ?e = "expo ?x"
  from expo_bounds [OF nz] n
  have lo: "2 powi ?e \<le> ?x" by simp
  have e_le: "?e \<le> 52"
  proof (rule ccontr)
    assume "\<not> ?e \<le> 52"
    then have "53 \<le> ?e" by simp
    then have "(2::rat) powi 53 \<le> 2 powi ?e"
      by (intro power_int_increasing) simp_all
    also note lo
    finally have "(2::rat) ^ 53 \<le> of_int n" by simp
    moreover have "(of_int n :: rat) < of_int (2 ^ 53)"
      using assms(2) by (simp only: of_int_less_iff)
    ultimately show False by simp
  qed
  define k where "k = nat (52 - ?e)"
  have s: "(2::rat) powi (?e - 52) = 1 / 2 ^ k"
  proof -
    have "?e - 52 = - int k" using e_le by (simp add: k_def)
    then have "(2::rat) powi (?e - 52) = 2 powi (- int k)" by simp
    also have "\<dots> = 1 / 2 powi (int k)" by (rule power_int_minus_divide)
    finally show ?thesis by simp
  qed
  have q: "?x / (1 / 2 ^ k) = of_int (n * 2 ^ k)" by simp
  have "fl ?x = of_int (round_half_even (?x / (1 / 2 ^ k))) * (1 / 2 ^ k)"
    using nz by (simp add: fl_def Let_def s)
  also have "\<dots> = of_int (n * 2 ^ k) * (1 / 2 ^ k)"
    by (simp only: q round_half_even_of_int)
  also have "\<dots> = ?x" by simp
  finally show ?thesis .
qed

text \<open>
  The product \<^verbatim>\<open>float64(failed) / float64(total) * 100 * 10\<close> is within \<open>5010 / 2 ^ 53\<close>
  of the exact value. A rational with denominator \<open>D\<close> is an integer or at least \<open>1 / D\<close>
  away from the integers on both sides.
\<close>

lemma product_err:
  assumes "0 \<le> r" "r \<le> 1"
  shows "\<bar>fl (fl (fl r * 100) * 10) - 1000 * r\<bar> \<le> 5010 / 2 ^ 53"
    and "0 \<le> fl (fl (fl r * 100) * 10)"
proof -
  define u :: rat where "u = 1 / 2 ^ 53"
  have u0: "0 \<le> u" and u1: "u \<le> 1 / 1000" by (simp_all add: u_def)
  have err: "\<bar>fl x - x\<bar> \<le> \<bar>x\<bar> * u" for x
    using fl_err [of x] by (simp add: u_def)
  define a where "a = fl r"
  define b where "b = fl (a * 100)"
  define c where "c = fl (b * 10)"
  have a0: "0 \<le> a" unfolding a_def using assms(1) by (rule fl_nonneg)
  have b0: "0 \<le> b" unfolding b_def using a0 by (intro fl_nonneg) simp
  have c0: "0 \<le> c" unfolding c_def using b0 by (intro fl_nonneg) simp
  have "\<bar>a - r\<bar> \<le> \<bar>r\<bar> * u" unfolding a_def by (rule err)
  also have "\<dots> \<le> 1 * u" using assms u0 by (intro mult_right_mono) simp_all
  finally have ea: "\<bar>a - r\<bar> \<le> u" by simp
  then have a2: "a \<le> 2" using assms u1 by linarith
  have "\<bar>b - a * 100\<bar> \<le> \<bar>a * 100\<bar> * u" unfolding b_def by (rule err)
  also have "\<dots> \<le> 200 * u" using a0 a2 u0 by (intro mult_right_mono) simp_all
  finally have eb: "\<bar>b - a * 100\<bar> \<le> 200 * u" .
  then have b2: "b \<le> 201" using a2 u1 by linarith
  have "\<bar>c - b * 10\<bar> \<le> \<bar>b * 10\<bar> * u" unfolding c_def by (rule err)
  also have "\<dots> \<le> 2010 * u" using b0 b2 u0 by (intro mult_right_mono) simp_all
  finally have ec: "\<bar>c - b * 10\<bar> \<le> 2010 * u" .
  have "\<bar>c - 1000 * r\<bar> \<le> 5010 * u"
    using ea eb ec by linarith
  then show "\<bar>fl (fl (fl r * 100) * 10) - 1000 * r\<bar> \<le> 5010 / 2 ^ 53"
    by (simp add: a_def b_def c_def u_def)
  show "0 \<le> fl (fl (fl r * 100) * 10)"
    using c0 by (simp add: a_def b_def c_def)
qed

lemma half_grid:
  fixes y :: rat and D :: int
  assumes "0 < D" "y * of_int D = of_int N"
  shows "y = of_int \<lfloor>y\<rfloor>
         \<or> (of_int \<lfloor>y\<rfloor> + 1 / of_int D \<le> y \<and> y \<le> of_int \<lfloor>y\<rfloor> + 1 - 1 / of_int D)"
proof -
  define M where "M = N - \<lfloor>y\<rfloor> * D"
  have Dpos: "(0::rat) < of_int D" using assms(1) by simp
  have m: "(y - of_int \<lfloor>y\<rfloor>) * of_int D = of_int M"
    by (simp add: M_def algebra_simps assms(2))
  have "0 \<le> y - of_int \<lfloor>y\<rfloor>" "y - of_int \<lfloor>y\<rfloor> < 1" by linarith+
  then have "0 \<le> (y - of_int \<lfloor>y\<rfloor>) * of_int D" "(y - of_int \<lfloor>y\<rfloor>) * of_int D < 1 * of_int D"
    using Dpos by (simp_all add: mult_strict_right_mono)
  then have "(0::rat) \<le> of_int M" "(of_int M :: rat) < of_int D" by (simp_all add: m)
  then have M: "0 \<le> M" "M < D" by simp_all
  have f: "y - of_int \<lfloor>y\<rfloor> = of_int M / of_int D"
    using m Dpos by (simp add: field_simps)
  show ?thesis
  proof (cases "M = 0")
    case True
    with f show ?thesis by simp
  next
    case False
    with M have "1 \<le> M" "M \<le> D - 1" by simp_all
    then have "(1::rat) \<le> of_int M" "(of_int M :: rat) \<le> of_int D - 1"
      by (metis of_int_1 of_int_le_iff, metis of_int_1 of_int_diff of_int_le_iff)
    then have "1 / of_int D \<le> of_int M / (of_int D :: rat)"
      "of_int M / (of_int D :: rat) \<le> (of_int D - 1) / of_int D"
      using Dpos by (simp_all add: divide_right_mono)
    moreover have "(of_int D - 1) / (of_int D :: rat) = 1 - 1 / of_int D"
      using Dpos by (simp add: field_simps)
    ultimately show ?thesis using f by linarith
  qed
qed

lemma score_of_rounding:
  fixes f t :: int and x :: rat
  assumes "0 \<le> f" "f \<le> t" "0 < t" "t \<le> 2 ^ 32"
  defines "x \<equiv> 1000 * of_int f / of_int t"
  shows "score_of f t =
           fl (of_int (if x + 1 / 2 = of_int \<lfloor>x + 1 / 2\<rfloor> \<and> float_product f t < x
                       then \<lfloor>x + 1 / 2\<rfloor> - 1 else \<lfloor>x + 1 / 2\<rfloor>) / 10)"
    and "\<bar>float_product f t - x\<bar> \<le> 5010 / 2 ^ 53"
proof -
  have tpos: "(0::rat) < of_int t" using assms(3) by simp
  have f53: "f < 2 ^ 53" and t53: "t < 2 ^ 53" using assms by simp_all
  define r :: rat where "r = of_int f / of_int t"
  have r0: "0 \<le> r" and r1: "r \<le> 1"
    using assms(1,2) tpos by (simp_all add: r_def)
  define c where "c = fl (fl (fl r * 100) * 10)"
  have xr: "x = 1000 * r" by (simp add: x_def r_def)
  have cp: "float_product f t = c"
    by (simp add: float_product_def fmul_def fdiv_def float64_def
        fl_of_int_exact [OF assms(1) f53] fl_of_int_exact [OF less_imp_le [OF assms(3)] t53]
        r_def [symmetric] c_def [symmetric])
  from product_err [OF r0 r1]
  have ec: "\<bar>c - x\<bar> \<le> 5010 / 2 ^ 53" and c0: "0 \<le> c"
    by (simp_all add: c_def xr)
  from ec show "\<bar>float_product f t - x\<bar> \<le> 5010 / 2 ^ 53" by (simp only: cp)
  define k where "k = \<lfloor>c + 1 / 2\<rfloor>"
  have sc: "score_of f t = fl (of_int k / 10)"
    using assms(3) c0
    by (simp add: score_of_def round1_def fmul_def fdiv_def float64_def math_Round_def
        fl_of_int_exact [OF assms(1) f53] fl_of_int_exact [OF less_imp_le [OF assms(3)] t53]
        r_def [symmetric] c_def [symmetric] k_def)
  define y where "y = x + 1 / 2"
  define K where "K = \<lfloor>y\<rfloor>"
  have D: "0 < 2 * t" using assms(3) by simp
  have yD: "y * of_int (2 * t) = of_int (2000 * f + t)"
    using tpos by (simp add: y_def x_def field_simps)
  have small: "5010 / 2 ^ 53 < 1 / (of_int (2 * t) :: rat)"
  proof -
    have "(of_int (2 * t) :: rat) \<le> of_int (2 ^ 33)"
      using assms(4) by (simp only: of_int_le_iff) simp
    then have "(of_int (2 * t) :: rat) \<le> 2 ^ 33" by simp
    then have "1 / (2 ^ 33 :: rat) \<le> 1 / of_int (2 * t)"
      using tpos by (intro divide_left_mono) simp_all
    moreover have "5010 / 2 ^ 53 < 1 / (2 ^ 33 :: rat)" by simp
    ultimately show ?thesis by linarith
  qed
  have eps1: "5010 / 2 ^ 53 < (1::rat)" by simp
  from half_grid [OF D yD]
  consider (tie) "y = of_int K"
    | (gap) "y \<noteq> of_int K" "of_int K + 1 / of_int (2 * t) \<le> y"
        "y \<le> of_int K + 1 - 1 / of_int (2 * t)"
    unfolding K_def by blast
  then have "k = (if y = of_int K \<and> c < x then K - 1 else K)"
  proof cases
    case tie
    show ?thesis
    proof (cases "c < x")
      case True
      have "of_int (K - 1) \<le> c + 1 / 2" "c + 1 / 2 < of_int (K - 1) + 1"
        using tie ec eps1 True unfolding y_def of_int_diff of_int_1 by linarith+
      then have "k = K - 1" unfolding k_def by (rule floor_unique)
      with tie True show ?thesis by simp
    next
      case False
      have "of_int K \<le> c + 1 / 2" "c + 1 / 2 < of_int K + 1"
        using tie ec eps1 False unfolding y_def by linarith+
      then have "k = K" unfolding k_def by (rule floor_unique)
      with False show ?thesis by simp
    qed
  next
    case gap
    have "of_int K \<le> c + 1 / 2" "c + 1 / 2 < of_int K + 1"
      using gap(2,3) ec small unfolding y_def by linarith+
    then have "k = K" unfolding k_def by (rule floor_unique)
    with gap(1) show ?thesis by simp
  qed
  then show "score_of f t =
           fl (of_int (if x + 1 / 2 = of_int \<lfloor>x + 1 / 2\<rfloor> \<and> float_product f t < x
                       then \<lfloor>x + 1 / 2\<rfloor> - 1 else \<lfloor>x + 1 / 2\<rfloor>) / 10)"
    by (simp only: sc cp y_def K_def)
qed

lemma round_half_away_1dp_nonneg:
  "0 \<le> r \<Longrightarrow> round_half_away_1dp r = of_int \<lfloor>r * 10 + 1 / 2\<rfloor> / 10"
proof (cases "r = 0")
  case True
  have "\<lfloor>1 / 2 :: rat\<rfloor> = 0" by (rule floor_unique) simp_all
  with True show ?thesis by (simp add: round_half_away_1dp_def)
next
  case False
  then show "0 \<le> r \<Longrightarrow> ?thesis" by (simp add: round_half_away_1dp_def)
qed

lemma half_integer_iff:
  fixes x :: rat
  shows "x + 1 / 2 = of_int \<lfloor>x + 1 / 2\<rfloor> \<longleftrightarrow> frac x = 1 / 2"
proof
  assume a: "x + 1 / 2 = of_int \<lfloor>x + 1 / 2\<rfloor>"
  define K where "K = \<lfloor>x + 1 / 2\<rfloor>"
  have x: "x = of_int (K - 1) + 1 / 2" using a by (simp add: K_def)
  have "\<lfloor>x\<rfloor> = K - 1"
    by (rule floor_unique) (simp_all add: x)
  then show "frac x = 1 / 2" by (simp add: frac_def x)
next
  assume "frac x = 1 / 2"
  then have x: "x + 1 / 2 = of_int (\<lfloor>x\<rfloor> + 1)" by (simp add: frac_def)
  then have "\<lfloor>x + 1 / 2\<rfloor> = \<lfloor>x\<rfloor> + 1" by (simp only: floor_of_int)
  with x show "x + 1 / 2 = of_int \<lfloor>x + 1 / 2\<rfloor>" by simp
qed

lemma GapScore_rounding:
  assumes "sealed \<noteq> []" and "length sealed \<le> 2 ^ 32"
  shows "GapScore (Report (buildReport sealed opn hasOpen)) =
           (if frac (raw_percent sealed * 10) = 1 / 2
               \<and> float_product (int (length (filter (\<lambda>t. Status t = ''failed'') sealed)))
                     (int (length sealed)) < raw_percent sealed * 10
            then fl (round_half_away_1dp (raw_percent sealed) - 1 / 10)
            else fl (round_half_away_1dp (raw_percent sealed)))"
    and "\<bar>float_product (int (length (filter (\<lambda>t. Status t = ''failed'') sealed)))
              (int (length sealed)) - raw_percent sealed * 10\<bar> \<le> 5010 / 2 ^ 53"
proof -
  define f where "f = int (length (filter (\<lambda>t. Status t = ''failed'') sealed))"
  define t where "t = int (length sealed)"
  have f0: "0 \<le> f" and ft: "f \<le> t" by (simp_all add: f_def t_def)
  have t0: "0 < t" using assms(1) by (simp add: t_def)
  have t32: "t \<le> 2 ^ 32"
    using assms(2) unfolding t_def by (metis of_nat_le_iff of_nat_numeral of_nat_power)
  have raw: "1000 * of_int f / of_int t = raw_percent sealed * 10"
    by (simp add: raw_percent_def f_def t_def)
  have raw0: "0 \<le> raw_percent sealed" by (simp add: raw_percent_def)
  note s = score_of_rounding [OF f0 ft t0 t32, unfolded raw half_integer_iff]
  have r: "round_half_away_1dp (raw_percent sealed) = of_int \<lfloor>raw_percent sealed * 10 + 1 / 2\<rfloor> / 10"
    by (rule round_half_away_1dp_nonneg [OF raw0])
  have "GapScore (Report (buildReport sealed opn hasOpen)) = score_of f t"
    by (simp add: GapScore_buildReport f_def t_def)
  also note s(1)
  finally show "GapScore (Report (buildReport sealed opn hasOpen)) =
           (if frac (raw_percent sealed * 10) = 1 / 2
               \<and> float_product (int (length (filter (\<lambda>t. Status t = ''failed'') sealed)))
                     (int (length sealed)) < raw_percent sealed * 10
            then fl (round_half_away_1dp (raw_percent sealed) - 1 / 10)
            else fl (round_half_away_1dp (raw_percent sealed)))"
    by (simp add: r f_def t_def diff_divide_distrib)
  from s(2) show "\<bar>float_product (int (length (filter (\<lambda>t. Status t = ''failed'') sealed)))
              (int (length sealed)) - raw_percent sealed * 10\<bar> \<le> 5010 / 2 ^ 53"
    by (simp only: f_def t_def)
qed

subsection \<open>Shell arithmetic within the 64-bit range\<close>

lemma sint_in_range:
  fixes k :: int
  assumes "- (2 ^ 63) \<le> k" "k < 2 ^ 63"
  shows "sint (word_of_int k :: 64 word) = k"
  using assms by (simp add: sint_sbintrunc' signed_take_bit_int_eq_self)

lemma sint_times_in_range:
  fixes a :: "64 word"
  assumes "- (2 ^ 63) \<le> sint a * k" "sint a * k < 2 ^ 63"
  shows "sint (a * word_of_int k) = sint a * k"
proof -
  have "a * word_of_int k = word_of_int (sint a * k)" by simp
  then show ?thesis using sint_in_range [OF assms] by simp
qed

lemma GAP_SCORE_X10_in_range:
  assumes "0 < sint SEALED_TOTAL" "0 \<le> sint SEALED_FAILED" "sint SEALED_FAILED * 1000 < 2 ^ 63"
  shows "sint (GAP_SCORE_X10 SEALED_TOTAL SEALED_FAILED)
           = (sint SEALED_FAILED * 1000) div sint SEALED_TOTAL"
proof -
  let ?F = "sint SEALED_FAILED" and ?T = "sint SEALED_TOTAL"
  have m: "sint (SEALED_FAILED * 1000) = ?F * 1000"
    using sint_times_in_range [of SEALED_FAILED 1000] assms(2,3) by simp
  have d: "(?F * 1000) sdiv ?T = (?F * 1000) div ?T"
    using assms(1,2) by (simp add: signed_divide_int_def sgn_if)
  have lo: "0 \<le> (?F * 1000) div ?T" using assms(1,2) by (simp add: pos_imp_zdiv_nonneg_iff)
  have "(?F * 1000) div ?T \<le> (?F * 1000) div 1"
    using assms(1,2) by (intro zdiv_mono2) simp_all
  then have "(?F * 1000) div ?T \<le> ?F * 1000" by simp
  then have hi: "(?F * 1000) div ?T < 2 ^ 63" using assms(3) by (rule le_less_trans)
  have "- (2 ^ 63) \<le> (0::int)" by simp
  then have lo': "- (2 ^ 63) \<le> (?F * 1000) div ?T" using lo by (rule order_trans)
  show ?thesis
    unfolding GAP_SCORE_X10_def sh_div_def m d by (rule sint_in_range [OF lo' hi])
qed

lemma gap_score_sh_in_range:
  assumes "0 < sint SEALED_TOTAL" "0 \<le> sint SEALED_FAILED" "sint SEALED_FAILED * 1000 < 2 ^ 63"
    and "- (2 ^ 63) \<le> sint thr * 10" "sint thr * 10 < 2 ^ 63"
  shows "snd (gap_score_sh SEALED_TOTAL SEALED_FAILED (Int_threshold thr))
           = (if sint thr * 10 < (sint SEALED_FAILED * 1000) div sint SEALED_TOTAL then 1 else 0)"
proof -
  have nz: "SEALED_TOTAL \<noteq> 0" using assms(1) by auto
  have t: "sint (thr * 10) = sint thr * 10"
    using sint_times_in_range [of thr 10] assms(4,5) by simp
  show ?thesis
    by (simp add: gap_score_sh_def Let_def nz word_sless_alt t
        GAP_SCORE_X10_in_range [OF assms(1-3)] split: prod.split)
qed

lemma gap_score_sh_No_threshold:
  "snd (gap_score_sh SEALED_TOTAL SEALED_FAILED No_threshold) = 0"
  by (simp add: gap_score_sh_def Let_def split: prod.split)

subsection \<open>Parsing what the formatter writes\<close>

lemma unmarshal_reportSummary_marshal:
  "unmarshal_reportSummary (marshal_reportSummary s) = Some s"
  by (simp add: marshal_reportSummary_def member_def)

lemma unmarshal_testStats_marshal:
  "unmarshal_testStats (marshal_testStats s) = Some s"
  by (simp add: marshal_testStats_def member_def)

lemma unmarshal_Failure_marshal:
  "unmarshal_Failure (marshal_Failure f) = Some f"
  by (simp add: marshal_Failure_def member_def)

lemma unmarshal_CategoryComparison_marshal:
  "unmarshal_CategoryComparison (marshal_CategoryComparison c) = Some c"
  by (simp add: marshal_CategoryComparison_def member_def)

lemma those_unmarshal_Failure:
  "those (map (unmarshal_Failure \<circ> marshal_Failure) fs) = Some fs"
  by (induction fs) (simp_all add: unmarshal_Failure_marshal)

lemma unmarshal_OpenTests_marshal:
  "unmarshal_OpenTests (marshal_testStats s) = Some (Some s)"
  using unmarshal_testStats_marshal [of s] by (simp add: marshal_testStats_def)

lemma unmarshal_entries_marshal:
  "distinct (map fst (m @ es)) \<Longrightarrow>
   unmarshal_entries (map (\<lambda>(k, c). (k, marshal_CategoryComparison c)) es) m = Some (m @ es)"
proof (induction es arbitrary: m)
  case Nil
  then show ?case by simp
next
  case (Cons e es)
  obtain k c where e: "e = (k, c)" by (cases e)
  from Cons.prems have notin: "k \<notin> fst ` set m" by (auto simp: e)
  then have upd: "AList.update k c m = m @ [(k, c)]"
    by (induction m) auto
  from Cons.prems have "distinct (map fst ((m @ [(k, c)]) @ es))" by (simp add: e)
  from Cons.IH [OF this] show ?case
    by (simp add: e unmarshal_CategoryComparison_marshal upd)
qed

lemma distinct_keys_sort_key:
  "distinct (map fst m) \<Longrightarrow> distinct (map fst (sort_key fst m))"
  by (simp add: distinct_map)

lemma map_of_sort_key:
  assumes "distinct (map fst m)"
  shows "map_of (sort_key fst m) = map_of m"
  using assms distinct_keys_sort_key [OF assms] by (simp add: map_of_inject_set)

lemma unmarshal_entries_sorted:
  assumes "distinct (map fst m)"
  shows "unmarshal_entries (map (\<lambda>(k, c). (k, marshal_CategoryComparison c)) (sort_key fst m)) []
         = Some (sort_key fst m)"
  using unmarshal_entries_marshal [of "[]" "sort_key fst m"] distinct_keys_sort_key [OF assms]
  by simp

lemma unmarshal_Report_marshal:
  assumes "\<forall>m. CoverageComparison r = Some m \<longrightarrow> distinct (map fst m) \<and> m \<noteq> []"
  shows "unmarshal_Report (marshal_Report r) = Some (in_key_order r)"
proof (cases "CoverageComparison r")
  case None
  then show ?thesis
    by (cases "OpenTests r")
      (simp_all add: marshal_Report_def member_def in_key_order_def
        unmarshal_reportSummary_marshal unmarshal_testStats_marshal those_unmarshal_Failure
        unmarshal_OpenTests_marshal)
next
  case (Some m)
  with assms have d: "distinct (map fst m)" and ne: "m \<noteq> []" by simp_all
  show ?thesis
    using ne
    by (cases "OpenTests r")
      (simp_all add: marshal_Report_def member_def in_key_order_def Some
        unmarshal_reportSummary_marshal unmarshal_testStats_marshal those_unmarshal_Failure
        unmarshal_OpenTests_marshal unmarshal_entries_sorted [OF d])
qed

lemma marshal_Report_in_key_order:
  "marshal_Report (in_key_order r) = marshal_Report r"
  by (cases "CoverageComparison r")
    (simp_all add: marshal_Report_def in_key_order_def sort_key_id_if_sorted)

lemma json_keys_marshal_Report:
  "marshal_Report r = JObject kvs \<Longrightarrow> map fst kvs = json_keys r"
  by (auto simp: marshal_Report_def json_keys_def split: option.splits if_splits)

subsection \<open>Claims about the report\<close>

text \<open>
  Claim C2. The level classifier is a function of the score alone: the inclusive upper
  bounds 0, 15, 30 and 50 are tried in ascending order and the first that holds the score
  gives the level and the indicator, so that a score on a bound belongs to the lower
  band and every score above 50 is critical. The level field of a report and the
  indicator of the summary headline are both this function of the report's score.
\<close>

theorem level_classifier:
  "classifyGap s =
     (if s \<le> 0 then (''perfect'', glyph_check)
      else if s \<le> 15 then (''minor'', glyph_green)
      else if s \<le> 30 then (''moderate'', glyph_yellow)
      else if s \<le> 50 then (''significant'', glyph_orange)
      else (''critical'', glyph_red))
   \<and> Level (Report (buildReport sealed opn hasOpen)) =
       fst (classifyGap (GapScore (Report (buildReport sealed opn hasOpen))))
   \<and> hd (summary_lines r) =
       Headline (GapScore (Report r)) (snd (classifyGap (GapScore (Report r)))) (Level (Report r))"
  by (simp add: classifyGap_cases Level_buildReport summary_lines_def Let_def)

theorem level_classifier_witness:
  "classifyGap 0 = (''perfect'', glyph_check)
   \<and> classifyGap 15 = (''minor'', glyph_green)
   \<and> classifyGap (151 / 10) = (''moderate'', glyph_yellow)
   \<and> classifyGap 30 = (''moderate'', glyph_yellow)
   \<and> classifyGap 50 = (''significant'', glyph_orange)
   \<and> classifyGap (501 / 10) = (''critical'', glyph_red)
   \<and> classifyGap 101 = (''critical'', glyph_red)"
  using level_classifier [where s = 0] level_classifier [where s = 15]
    level_classifier [where s = "151 / 10"] level_classifier [where s = 30]
    level_classifier [where s = 50] level_classifier [where s = "501 / 10"]
    level_classifier [where s = 101]
  by simp

text \<open>
  Claim C4. A sealed result set with no entries has score exactly 0 and level perfect,
  with no failures; the Go validator run on it without a threshold exits with code 0, and
  the shell validator called with a total of 0 prints its perfect line and exits with
  code 0.
\<close>

theorem empty_sealed_suite:
  "GapScore (Report (buildReport [] opn hasOpen)) = 0
   \<and> Level (Report (buildReport [] opn hasOpen)) = ''perfect''
   \<and> Failures (buildReport [] opn hasOpen) = []
   \<and> SealedTests (buildReport [] opn hasOpen) = \<lparr>Total = 0, Passed = 0, Failed = 0\<rparr>
   \<and> exit_code (main (flags_of [] fmt None) (files_of [] opn)) = 0
   \<and> gap_score_sh 0 nfailed thr = ([NoSealedTests], 0)"
proof -
  have s: "GapScore (Report (buildReport [] opn hasOpen)) = 0"
    by (simp add: GapScore_buildReport score_of_def)
  have l: "Level (Report (buildReport [] opn hasOpen)) = ''perfect''"
    by (simp add: Level_buildReport s classifyGap_cases)
  have m: "exit_code (main (flags_of [] fmt None) (files_of [] opn)) = 0"
    by (simp add: main_def flags_of_def files_of_def loadResults_def Let_def)
  show ?thesis
    by (simp add: s l m Failures_buildReport SealedTests_buildReport gap_score_sh_def)
qed

theorem empty_sealed_suite_witness:
  "GapScore (Report (buildReport [] mixed_open True)) = 0
   \<and> Level (Report (buildReport [] mixed_open True)) = ''perfect''
   \<and> exit_code (main (flags_of [] ''summary'' None) (files_of [] [])) = 0
   \<and> gap_score_sh 0 0 (Int_threshold 15) = ([NoSealedTests], 0)"
  using empty_sealed_suite [of mixed_open True "''summary''" 0 "Int_threshold 15"]
    empty_sealed_suite [of "[]" True "''summary''" 0 "Int_threshold 15"]
  by simp

text \<open>
  Claim C5. The coverage comparison is present in a report, and written to the JSON
  document, exactly when an open suite was supplied. When present it has exactly the four
  categories happy_path, edge_case, error_handling and security, each with the number of
  sealed tests and of open tests of that category and their difference, sealed minus
  open, whatever the counts are; tests of any other category are in none of them. Without
  an open suite the map is nil and the field is left out.
\<close>

theorem coverage_comparison_presence:
  "CoverageComparison (buildReport sealed opn hasOpen) =
     (if hasOpen then
        Some (map (\<lambda>c. (c, \<lparr>Sealed = int (length (filter (\<lambda>t. Category t = c) sealed)),
                             Open = int (length (filter (\<lambda>t. Category t = c) opn)),
                             Delta = int (length (filter (\<lambda>t. Category t = c) sealed))
                                     - int (length (filter (\<lambda>t. Category t = c) opn))\<rparr>))
                [''happy_path'', ''edge_case'', ''error_handling'', ''security''])
      else None)
   \<and> (''coverage_comparison'' \<in> set (json_keys (buildReport sealed opn hasOpen))) = hasOpen"
  by (simp add: CoverageComparison_buildReport json_keys_def split: option.split)

theorem coverage_comparison_presence_witness:
  "CoverageComparison (buildReport mixed_sealed mixed_open True) =
     Some [(''happy_path'', \<lparr>Sealed = 1, Open = 2, Delta = - 1\<rparr>),
           (''edge_case'', \<lparr>Sealed = 1, Open = 0, Delta = 1\<rparr>),
           (''error_handling'', \<lparr>Sealed = 0, Open = 0, Delta = 0\<rparr>),
           (''security'', \<lparr>Sealed = 2, Open = 0, Delta = 2\<rparr>)]
   \<and> CoverageComparison (buildReport mixed_sealed [] False) = None
   \<and> ''coverage_comparison'' \<in> set (json_keys (buildReport mixed_sealed mixed_open True))
   \<and> ''coverage_comparison'' \<notin> set (json_keys (buildReport mixed_sealed [] False))"
  using coverage_comparison_presence [of mixed_sealed mixed_open True]
    coverage_comparison_presence [of mixed_sealed "[]" False]
  by (simp add: mixed_sealed_def mixed_open_def test_case_def)

text \<open>
  Claim C6. The failures of a report are the failed tests of the sealed result set, one
  entry for each, in the order of the sealed result set, whatever the open suite is: none
  is dropped and none is merged with an equal one. An entry takes the name, expected,
  actual and message of its test, and its category, or the string unknown when the test
  has none.
\<close>

theorem failures_from_sealed:
  "Failures (buildReport sealed opn hasOpen) =
     map (\<lambda>f. \<lparr>TestName = Name f,
                FCategory = (if Category f = [] then ''unknown'' else Category f),
                FExpected = Expected f, FActual = Actual f, FMessage = Message f\<rparr>)
       (filter (\<lambda>t. Status t = ''failed'') sealed)
   \<and> length (Failures (buildReport sealed opn hasOpen)) =
       length (filter (\<lambda>t. Status t = ''failed'') sealed)"
  by (simp add: Failures_buildReport)

theorem failures_from_sealed_witness:
  "Failures (buildReport mixed_sealed mixed_open True) =
     [\<lparr>TestName = ''test_rejects_gpl_dependency'', FCategory = ''security'',
       FExpected = [], FActual = [], FMessage = ''GPL dependency not blocked''\<rparr>,
      \<lparr>TestName = ''test_no_category'', FCategory = ''unknown'',
       FExpected = [], FActual = [], FMessage = ''no category given''\<rparr>,
      \<lparr>TestName = ''test_rejects_gpl_dependency'', FCategory = ''security'',
       FExpected = [], FActual = [], FMessage = ''GPL dependency not blocked''\<rparr>]"
  using failures_from_sealed [of mixed_sealed mixed_open True]
  by (simp add: mixed_sealed_def test_case_def)

text \<open>
  Claim C7. In every report the sealed total is the sum of the sealed passed and failed
  counts; the open totals are present exactly when an open suite was supplied, and then
  the open total is the sum of the open passed and failed counts.
\<close>

theorem totals_add_up:
  "Total (SealedTests (buildReport sealed opn hasOpen)) =
     Passed (SealedTests (buildReport sealed opn hasOpen))
     + Failed (SealedTests (buildReport sealed opn hasOpen))
   \<and> (OpenTests (buildReport sealed opn hasOpen) \<noteq> None) = hasOpen
   \<and> (\<forall>ot. OpenTests (buildReport sealed opn hasOpen) = Some ot \<longrightarrow>
         Total ot = Passed ot + Failed ot)"
  by (simp add: SealedTests_buildReport OpenTests_buildReport)

theorem totals_add_up_witness:
  "SealedTests (buildReport mixed_sealed mixed_open True) = \<lparr>Total = 6, Passed = 3, Failed = 3\<rparr>
   \<and> OpenTests (buildReport mixed_sealed mixed_open True)
       = Some \<lparr>Total = 3, Passed = 2, Failed = 1\<rparr>
   \<and> (6::int) = 3 + 3 \<and> (3::int) = 2 + 1"
proof -
  have s: "SealedTests (buildReport mixed_sealed mixed_open True)
             = \<lparr>Total = 6, Passed = 3, Failed = 3\<rparr>"
    by (simp add: SealedTests_buildReport mixed_sealed_def test_case_def)
  have ot: "OpenTests (buildReport mixed_sealed mixed_open True)
             = Some \<lparr>Total = 3, Passed = 2, Failed = 1\<rparr>"
    by (simp add: OpenTests_buildReport mixed_open_def test_case_def)
  from totals_add_up [of mixed_sealed mixed_open True] ot
  have "Total \<lparr>Total = 3, Passed = 2, Failed = 1\<rparr>
          = Passed \<lparr>Total = 3, Passed = 2, Failed = 1\<rparr> + Failed \<lparr>Total = 3, Passed = 2, Failed = 1\<rparr>"
    by blast
  with s ot show ?thesis by simp
qed

text \<open>
  Claim C9. In the sealed and in the open totals a test counts as failed exactly when its
  status is the string failed; a test of any other status, passed or not, counts as
  passed, and is not among the failures. No status makes the validator reject its input:
  the loader returns the tests of a file as they are.
\<close>

theorem only_failed_status_counts:
  "Failed (SealedTests (buildReport sealed opn hasOpen)) =
     int (length (filter (\<lambda>t. Status t = ''failed'') sealed))
   \<and> Passed (SealedTests (buildReport sealed opn hasOpen)) =
       int (length (filter (\<lambda>t. Status t \<noteq> ''failed'') sealed))
   \<and> OpenTests (buildReport sealed opn True) =
       Some \<lparr>Total = int (length opn),
             Passed = int (length (filter (\<lambda>t. Status t \<noteq> ''failed'') opn)),
             Failed = int (length (filter (\<lambda>t. Status t = ''failed'') opn))\<rparr>
   \<and> map TestName (Failures (buildReport sealed opn hasOpen)) =
       map Name (filter (\<lambda>t. Status t = ''failed'') sealed)
   \<and> loadResults files path = files path"
proof -
  have c: "int (length ts) - int (length (filter (\<lambda>t. Status t = ''failed'') ts))
           = int (length (filter (\<lambda>t. Status t \<noteq> ''failed'') ts))" for ts :: "TestResult list"
    using sum_length_filter_compl [of "\<lambda>t. Status t = ''failed''" ts] by simp
  have l: "loadResults files path = files path"
    by (simp add: loadResults_def split: sum.split)
  show ?thesis
    by (simp add: SealedTests_buildReport OpenTests_buildReport Failures_buildReport c l
        comp_def)
qed

theorem only_failed_status_counts_witness:
  "SealedTests (buildReport mixed_sealed mixed_open True) = \<lparr>Total = 6, Passed = 3, Failed = 3\<rparr>
   \<and> OpenTests (buildReport mixed_sealed mixed_open True)
       = Some \<lparr>Total = 3, Passed = 2, Failed = 1\<rparr>
   \<and> map TestName (Failures (buildReport mixed_sealed mixed_open True)) =
       [''test_rejects_gpl_dependency'', ''test_no_category'', ''test_rejects_gpl_dependency'']
   \<and> loadResults (files_of mixed_sealed mixed_open) ''sealed.json'' = Inr mixed_sealed"
  using only_failed_status_counts
    [of mixed_sealed mixed_open True "files_of mixed_sealed mixed_open" "''sealed.json''"]
    SealedTests_buildReport [of mixed_sealed mixed_open True]
  by (simp add: mixed_sealed_def mixed_open_def test_case_def files_of_def)

text \<open>
  Claim C8. Structured output round-trips. For every report that \<open>buildReport\<close> makes,
  parsing the document the formatter writes succeeds and gives a report with the same
  field values as the original: the version, the score and level, the sealed totals, the
  open totals, the failures in order, and the same coverage map (a Go map has no order;
  the parsed one lists its entries by key). Formatting the parsed report gives the same
  document again, and so the same bytes.
\<close>

theorem structured_round_trip:
  "unmarshal_Report (marshal_Report (buildReport sealed opn hasOpen))
     = Some (in_key_order (buildReport sealed opn hasOpen))
   \<and> marshal_Report (in_key_order (buildReport sealed opn hasOpen))
       = marshal_Report (buildReport sealed opn hasOpen)
   \<and> SpecVersion (in_key_order (buildReport sealed opn hasOpen))
       = SpecVersion (buildReport sealed opn hasOpen)
   \<and> Report (in_key_order (buildReport sealed opn hasOpen))
       = Report (buildReport sealed opn hasOpen)
   \<and> SealedTests (in_key_order (buildReport sealed opn hasOpen))
       = SealedTests (buildReport sealed opn hasOpen)
   \<and> OpenTests (in_key_order (buildReport sealed opn hasOpen))
       = OpenTests (buildReport sealed opn hasOpen)
   \<and> Failures (in_key_order (buildReport sealed opn hasOpen))
       = Failures (buildReport sealed opn hasOpen)
   \<and> map_option map_of (CoverageComparison (in_key_order (buildReport sealed opn hasOpen)))
       = map_option map_of (CoverageComparison (buildReport sealed opn hasOpen))"
proof -
  let ?r = "buildReport sealed opn hasOpen"
  have wf: "\<forall>m. CoverageComparison ?r = Some m \<longrightarrow> distinct (map fst m) \<and> m \<noteq> []"
    by (simp add: CoverageComparison_buildReport)
  have m: "map_option map_of (CoverageComparison (in_key_order ?r))
             = map_option map_of (CoverageComparison ?r)"
  proof (cases "CoverageComparison ?r")
    case None
    then show ?thesis by (simp add: in_key_order_def)
  next
    case (Some m)
    with wf have "distinct (map fst m)" by simp
    then show ?thesis by (simp add: in_key_order_def Some map_of_sort_key)
  qed
  have f: "SpecVersion (in_key_order ?r) = SpecVersion ?r"
    "Report (in_key_order ?r) = Report ?r"
    "SealedTests (in_key_order ?r) = SealedTests ?r"
    "OpenTests (in_key_order ?r) = OpenTests ?r"
    "Failures (in_key_order ?r) = Failures ?r"
    by (simp_all add: in_key_order_def)
  from unmarshal_Report_marshal [OF wf] marshal_Report_in_key_order [of ?r] f m
  show ?thesis by blast
qed

theorem structured_round_trip_witness:
  "unmarshal_Report (marshal_Report (buildReport mixed_sealed mixed_open True))
     = Some (in_key_order (buildReport mixed_sealed mixed_open True))
   \<and> marshal_Report (in_key_order (buildReport mixed_sealed mixed_open True))
       = marshal_Report (buildReport mixed_sealed mixed_open True)
   \<and> CoverageComparison (in_key_order (buildReport mixed_sealed mixed_open True)) =
       Some [(''edge_case'', \<lparr>Sealed = 1, Open = 0, Delta = 1\<rparr>),
             (''error_handling'', \<lparr>Sealed = 0, Open = 0, Delta = 0\<rparr>),
             (''happy_path'', \<lparr>Sealed = 1, Open = 2, Delta = - 1\<rparr>),
             (''security'', \<lparr>Sealed = 2, Open = 0, Delta = 2\<rparr>)]
   \<and> unmarshal_Report (marshal_Report (buildReport mixed_sealed [] False))
       = Some (buildReport mixed_sealed [] False)"
proof -
  have c: "CoverageComparison (in_key_order (buildReport mixed_sealed mixed_open True)) =
       Some [(''edge_case'', \<lparr>Sealed = 1, Open = 0, Delta = 1\<rparr>),
             (''error_handling'', \<lparr>Sealed = 0, Open = 0, Delta = 0\<rparr>),
             (''happy_path'', \<lparr>Sealed = 1, Open = 2, Delta = - 1\<rparr>),
             (''security'', \<lparr>Sealed = 2, Open = 0, Delta = 2\<rparr>)]"
    by code_simp
  have n: "in_key_order (buildReport mixed_sealed [] False) = buildReport mixed_sealed [] False"
    by (simp add: in_key_order_def buildReport_def Let_def)
  from structured_round_trip [of mixed_sealed mixed_open True]
    structured_round_trip [of mixed_sealed "[]" False] c n
  show ?thesis by simp
qed

subsection \<open>Claims about the threshold gate\<close>

lemma score_2_of_18: "score_of 2 18 = fl (111 / 10)"
  by code_simp

lemma score_2_of_3: "score_of 2 3 = fl (667 / 10)"
  by code_simp

lemma fl_111: "fl (111 / 10) = 6248744482976563 / 562949953421312"
  by code_simp

lemma sealed_of_counts:
  "length (sealed_of k n) = k + n"
  "length (filter (\<lambda>t. Status t = ''failed'') (sealed_of k n)) = k"
  by (simp_all add: sealed_of_def test_case_def)

text \<open>
  Claim C3, amended. For every run of the Go validator whose inputs load, the exit code is
  1 when a threshold was supplied and the score of the report is strictly greater than
  it, and 0 otherwise (the score equal to or below the threshold, or no threshold), in
  either output format. The shell validator exits with code 0 when no threshold is given.
  Given an integer threshold, a sealed total above 0 and a failed count of at least 0,
  with \<open>failed * 1000\<close> and \<open>threshold * 10\<close> inside the signed 64-bit range, it exits with
  code 1 when its score, \<open>failed * 1000 div total\<close> tenths, is strictly greater than the
  threshold, and with code 0 otherwise. Nothing is stated about the shell validator on a
  sealed total of 0, on a threshold with a decimal point, or beyond the 64-bit range.
\<close>

theorem threshold_gate:
  assumes "sealedPath flags \<noteq> []"
    and "files (sealedPath flags) = Inr sealed"
    and "files (openPath flags) = Inr opn \<or> openPath flags = []"
    and "0 < sint SEALED_TOTAL" and "0 \<le> sint SEALED_FAILED"
    and "sint SEALED_FAILED * 1000 < 2 ^ 63"
    and "- (2 ^ 63) \<le> sint thr * 10" and "sint thr * 10 < 2 ^ 63"
  shows "exit_code (main flags files) =
           (if hasThreshold flags \<and>
               thresholdVal flags
                 < GapScore (Report (buildReport sealed (if openPath flags = [] then [] else opn)
                                       (openPath flags \<noteq> [])))
            then 1 else 0)
         \<and> snd (gap_score_sh SEALED_TOTAL SEALED_FAILED (Int_threshold thr)) =
             (if sint thr * 10 < (sint SEALED_FAILED * 1000) div sint SEALED_TOTAL then 1 else 0)
         \<and> snd (gap_score_sh SEALED_TOTAL SEALED_FAILED No_threshold) = 0"
  using main_loaded [OF assms(1-3)] gap_score_sh_in_range [OF assms(4-8)]
    gap_score_sh_No_threshold [of SEALED_TOTAL SEALED_FAILED]
  by simp

theorem threshold_gate_witness:
  "exit_code (main (flags_of [] ''json'' (Some (fl (111 / 10)))) (files_of (sealed_of 2 16) [])) = 0
   \<and> exit_code (main (flags_of [] ''summary'' (Some (fl (111 / 10)))) (files_of (sealed_of 2 16) [])) = 0
   \<and> exit_code (main (flags_of [] ''json'' (Some 11)) (files_of (sealed_of 2 16) [])) = 1
   \<and> exit_code (main (flags_of [] ''summary'' (Some 11)) (files_of (sealed_of 2 16) [])) = 1
   \<and> exit_code (main (flags_of [] ''json'' None) (files_of (sealed_of 2 16) [])) = 0
   \<and> snd (gap_score_sh 18 2 (Int_threshold 11)) = 1
   \<and> snd (gap_score_sh 18 2 (Int_threshold 12)) = 0
   \<and> snd (gap_score_sh 18 2 No_threshold) = 0"
proof -
  have g: "GapScore (Report (buildReport (sealed_of 2 16) [] False)) = fl (111 / 10)"
    by (simp add: GapScore_buildReport sealed_of_counts score_2_of_18)
  have s: "0 < sint (18 :: sh_int)" "0 \<le> sint (2 :: sh_int)" "sint (2 :: sh_int) * 1000 < 2 ^ 63"
    by simp_all
  have t11: "- (2 ^ 63) \<le> sint (11 :: sh_int) * 10" "sint (11 :: sh_int) * 10 < 2 ^ 63"
    by simp_all
  have t12: "- (2 ^ 63) \<le> sint (12 :: sh_int) * 10" "sint (12 :: sh_int) * 10 < 2 ^ 63"
    by simp_all
  have a: "sealedPath (flags_of [] fmt thr) \<noteq> []" for fmt thr
    by (simp add: flags_of_def)
  have b: "files_of (sealed_of 2 16) [] (sealedPath (flags_of [] fmt thr)) = Inr (sealed_of 2 16)"
    for fmt thr
    by (simp add: flags_of_def files_of_def)
  have c: "files_of (sealed_of 2 16) [] (openPath (flags_of [] fmt thr)) = Inr []
           \<or> openPath (flags_of [] fmt thr) = []" for fmt thr
    by (simp add: flags_of_def)
  note t = threshold_gate [OF a b c s]
  show ?thesis
    using t [OF t11, of "''json''" "Some (fl (111 / 10))"]
      t [OF t12, of "''summary''" "Some (fl (111 / 10))"]
      t [OF t11, of "''json''" "Some 11"]
      t [OF t11, of "''summary''" "Some 11"]
      t [OF t11, of "''json''" None]
    by (simp add: flags_of_def g fl_111)
qed

text \<open>
  The claim as stated fails on the shell validator. Called with 18 tests, 2 failed and
  the threshold 11.1, it shows the score 11.1, which is not greater than the threshold,
  and ends with exit status 1, the threshold being no integer. Called with 3 tests, 1
  failed and the threshold 922337203685477581, it shows the score 33.3, far below the
  threshold, and exits with code 1, the tenfold threshold having wrapped around.
\<close>

theorem threshold_gate_counterexample:
  "snd (gap_score_sh 18 2 (Decimal_threshold (111 / 10)))
     \<noteq> (if (111 / 10 :: rat) < of_int (sint (GAP_SCORE_X10 18 2)) / 10 then 1 else 0)
   \<and> snd (gap_score_sh 3 1 (Int_threshold 922337203685477581))
     \<noteq> (if (922337203685477581 :: rat) < of_int (sint (GAP_SCORE_X10 3 1)) / 10 then 1 else 0)"
proof -
  have a: "snd (gap_score_sh 18 2 (Decimal_threshold (111 / 10))) = 1" by code_simp
  have b: "sint (GAP_SCORE_X10 18 2) = 111" by code_simp
  have c: "snd (gap_score_sh 3 1 (Int_threshold 922337203685477581)) = 1" by code_simp
  have d: "sint (GAP_SCORE_X10 3 1) = 333" by code_simp
  show ?thesis unfolding a b c d by simp
qed

text \<open>
  Claim C10. The gate compares the threshold with the rounded score, not with the raw
  ratio. For every run whose inputs load, on a sealed result set of 1 to \<open>2 ^ 32\<close>
  entries, the exit code is 1 exactly when a threshold was supplied and is strictly below
  the float64 nearest to the raw percentage rounded to one decimal digit, half away from
  zero (the tenth below it when the float64 product falls below an exact half); so a
  threshold that is at least this rounded score gives exit code 0 even when the raw
  percentage is strictly greater than the threshold.
\<close>

theorem gate_on_rounded_score:
  assumes "sealedPath flags \<noteq> []"
    and "files (sealedPath flags) = Inr sealed"
    and "files (openPath flags) = Inr opn \<or> openPath flags = []"
    and "sealed \<noteq> []" and "length sealed \<le> 2 ^ 32"
  shows "exit_code (main flags files) =
           (if hasThreshold flags \<and>
               thresholdVal flags
                 < (if frac (raw_percent sealed * 10) = 1 / 2
                       \<and> float_product (int (length (filter (\<lambda>t. Status t = ''failed'') sealed)))
                             (int (length sealed)) < raw_percent sealed * 10
                    then fl (round_half_away_1dp (raw_percent sealed) - 1 / 10)
                    else fl (round_half_away_1dp (raw_percent sealed)))
            then 1 else 0)
         \<and> ((if frac (raw_percent sealed * 10) = 1 / 2
                 \<and> float_product (int (length (filter (\<lambda>t. Status t = ''failed'') sealed)))
                       (int (length sealed)) < raw_percent sealed * 10
              then fl (round_half_away_1dp (raw_percent sealed) - 1 / 10)
              else fl (round_half_away_1dp (raw_percent sealed))) \<le> thresholdVal flags
             \<and> thresholdVal flags < raw_percent sealed
             \<longrightarrow> exit_code (main flags files) = 0)"
  using main_loaded [OF assms(1-3)]
  by (simp only: GapScore_rounding(1) [OF assms(4,5)]) auto

theorem gate_on_rounded_score_witness:
  "exit_code (main (flags_of [] ''json'' (Some (fl (111 / 10)))) (files_of (sealed_of 2 16) [])) = 0
   \<and> fl (round_half_away_1dp (raw_percent (sealed_of 2 16))) \<le> fl (111 / 10)
   \<and> fl (111 / 10) < raw_percent (sealed_of 2 16)
   \<and> exit_code (main (flags_of [] ''json'' (Some (fl (1667 / 25)))) (files_of (sealed_of 2 1) [])) = 1
   \<and> raw_percent (sealed_of 2 1) < fl (1667 / 25)
   \<and> fl (1667 / 25) < fl (round_half_away_1dp (raw_percent (sealed_of 2 1)))"
proof -
  have ne: "sealed_of 2 16 \<noteq> []" "sealed_of 2 1 \<noteq> []" by (simp_all add: sealed_of_def)
  have le: "length (sealed_of 2 16) \<le> 2 ^ 32" "length (sealed_of 2 1) \<le> 2 ^ 32"
    by (simp_all add: sealed_of_counts)
  have r18: "raw_percent (sealed_of 2 16) = 100 / 9"
    by (simp add: raw_percent_def sealed_of_counts)
  have r3: "raw_percent (sealed_of 2 1) = 200 / 3"
    by (simp add: raw_percent_def sealed_of_counts)
  have f18: "frac (100 / 9 * 10 :: rat) \<noteq> 1 / 2" by code_simp
  have f3: "frac (200 / 3 * 10 :: rat) \<noteq> 1 / 2" by code_simp
  have n18: "\<not> (frac (100 / 9 * 10 :: rat) = 1 / 2 \<and> P)" for P using f18 by blast
  have n3: "\<not> (frac (200 / 3 * 10 :: rat) = 1 / 2 \<and> P)" for P using f3 by blast
  have a18: "fl (round_half_away_1dp (100 / 9)) \<le> fl (111 / 10)" by code_simp
  have b18: "fl (111 / 10) < (100 / 9 :: rat)" by code_simp
  have a3: "fl (1667 / 25) < fl (round_half_away_1dp (200 / 3))" by code_simp
  have b3: "(200 / 3 :: rat) < fl (1667 / 25)" by code_simp
  have a: "sealedPath (flags_of [] fmt thr) \<noteq> []" for fmt thr
    by (simp add: flags_of_def)
  have b: "files_of sealed [] (sealedPath (flags_of [] fmt thr)) = Inr sealed" for sealed fmt thr
    by (simp add: flags_of_def files_of_def)
  have c: "files_of sealed [] (openPath (flags_of [] fmt thr)) = Inr []
           \<or> openPath (flags_of [] fmt thr) = []" for sealed fmt thr
    by (simp add: flags_of_def)
  have h: "hasThreshold (flags_of [] fmt (Some v))" "thresholdVal (flags_of [] fmt (Some v)) = v"
    for fmt v
    by (simp_all add: flags_of_def)
  from gate_on_rounded_score [OF a b c ne(1) le(1), of "''json''" "Some (fl (111 / 10))",
      THEN conjunct1, unfolded r18 if_not_P [OF n18] h]
  have e18: "exit_code (main (flags_of [] ''json'' (Some (fl (111 / 10))))
                (files_of (sealed_of 2 16) [])) = 0"
    using leD [OF a18] by (simp add: h)
  from gate_on_rounded_score [OF a b c ne(2) le(2), of "''json''" "Some (fl (1667 / 25))",
      THEN conjunct1, unfolded r3 if_not_P [OF n3] h]
  have e3: "exit_code (main (flags_of [] ''json'' (Some (fl (1667 / 25))))
                (files_of (sealed_of 2 1) [])) = 1"
    using a3 by (simp add: h)
  from e18 e3 a18 b18 a3 b3 show ?thesis unfolding r18 r3 by blast
qed

subsection \<open>Claims about the score\<close>

lemma score_23_of_80: "score_of 23 80 = fl (287 / 10)"
  by code_simp

text \<open>
  Claim C1, amended. For every sealed result set with at least one and at most \<open>2 ^ 32\<close>
  entries, the score the Go validator reports is the float64 nearest to
  \<open>failed / total * 100\<close> rounded to one decimal digit, half away from zero, in exact
  arithmetic, with one exception: when ten times the percentage is exactly halfway
  between two integers and the float64 product \<^verbatim>\<open>float64(failed) / float64(total) * 100 * 10\<close>
  falls below that half, the score is the float64 nearest to the tenth below. The
  product is within \<open>5010 / 2 ^ 53\<close> of the exact value. Nothing is stated about the
  shell validator.
\<close>

theorem reported_score_rounding:
  assumes "sealed \<noteq> []" and "length sealed \<le> 2 ^ 32"
  shows "GapScore (Report (buildReport sealed opn hasOpen)) =
           (if frac (raw_percent sealed * 10) = 1 / 2
               \<and> float_product (int (length (filter (\<lambda>t. Status t = ''failed'') sealed)))
                     (int (length sealed)) < raw_percent sealed * 10
            then fl (round_half_away_1dp (raw_percent sealed) - 1 / 10)
            else fl (round_half_away_1dp (raw_percent sealed)))
         \<and> \<bar>float_product (int (length (filter (\<lambda>t. Status t = ''failed'') sealed)))
               (int (length sealed)) - raw_percent sealed * 10\<bar> \<le> 5010 / 2 ^ 53"
  using GapScore_rounding [OF assms] by (rule conjI)

theorem reported_score_rounding_witness:
  "GapScore (Report (buildReport (sealed_of 1 15) [] False)) = fl (63 / 10)
   \<and> round_half_away_1dp (raw_percent (sealed_of 1 15)) = 63 / 10
   \<and> frac (raw_percent (sealed_of 1 15) * 10) = 1 / 2
   \<and> float_product 1 16 = 125 / 2
   \<and> GapScore (Report (buildReport (sealed_of 2 16) [] False)) = fl (111 / 10)
   \<and> round_half_away_1dp (raw_percent (sealed_of 2 16)) = 111 / 10
   \<and> GapScore (Report (buildReport (sealed_of 23 57) [] False)) = fl (287 / 10)
   \<and> round_half_away_1dp (raw_percent (sealed_of 23 57)) = 288 / 10
   \<and> float_product 23 80 < 575 / 2"
proof -
  have ne: "sealed_of 1 15 \<noteq> []" "sealed_of 2 16 \<noteq> []" "sealed_of 23 57 \<noteq> []"
    by (simp_all add: sealed_of_def)
  have le: "length (sealed_of 1 15) \<le> 2 ^ 32" "length (sealed_of 2 16) \<le> 2 ^ 32"
    "length (sealed_of 23 57) \<le> 2 ^ 32"
    by (simp_all add: sealed_of_counts)
  have r16: "raw_percent (sealed_of 1 15) = 25 / 4"
    and r18: "raw_percent (sealed_of 2 16) = 100 / 9"
    and r80: "raw_percent (sealed_of 23 57) = 115 / 4"
    by (simp_all add: raw_percent_def sealed_of_counts)
  have c16: "int (length (filter (\<lambda>t. Status t = ''failed'') (sealed_of 1 15))) = 1"
    "int (length (sealed_of 1 15)) = 16"
    and c80: "int (length (filter (\<lambda>t. Status t = ''failed'') (sealed_of 23 57))) = 23"
    "int (length (sealed_of 23 57)) = 80"
    by (simp_all add: sealed_of_counts)
  have h16: "round_half_away_1dp (25 / 4) = 63 / 10"
    and h18: "round_half_away_1dp (100 / 9) = 111 / 10"
    and h80: "round_half_away_1dp (115 / 4) = 288 / 10"
    by code_simp+
  have f16: "frac (25 / 4 * 10 :: rat) = 1 / 2"
    and f18: "frac (100 / 9 * 10 :: rat) \<noteq> 1 / 2"
    and f80: "frac (115 / 4 * 10 :: rat) = 1 / 2"
    by code_simp+
  have p16: "float_product 1 16 = 125 / 2" by code_simp
  have p16': "\<not> float_product 1 16 < 25 / 4 * 10" by code_simp
  have p80: "float_product 23 80 < 575 / 2" by code_simp
  have p80': "float_product 23 80 < 115 / 4 * 10" by code_simp
  have d80: "(288 / 10 - 1 / 10 :: rat) = 287 / 10" by simp
  have n16: "\<not> (frac (25 / 4 * 10 :: rat) = 1 / 2 \<and> float_product 1 16 < 25 / 4 * 10)"
    using p16' by blast
  have n18: "\<not> (frac (100 / 9 * 10 :: rat) = 1 / 2 \<and> P)" for P using f18 by blast
  have y80: "frac (115 / 4 * 10 :: rat) = 1 / 2 \<and> float_product 23 80 < 115 / 4 * 10"
    using f80 p80' by (rule conjI)
  have g16: "GapScore (Report (buildReport (sealed_of 1 15) [] False)) = fl (63 / 10)"
    by (rule reported_score_rounding [OF ne(1) le(1), of "[]" False, THEN conjunct1,
          unfolded r16 c16 h16 if_not_P [OF n16]])
  have g18: "GapScore (Report (buildReport (sealed_of 2 16) [] False)) = fl (111 / 10)"
    by (rule reported_score_rounding [OF ne(2) le(2), of "[]" False, THEN conjunct1,
          unfolded r18 h18 if_not_P [OF n18]])
  have g80: "GapScore (Report (buildReport (sealed_of 23 57) [] False)) = fl (287 / 10)"
    by (rule reported_score_rounding [OF ne(3) le(3), of "[]" False, THEN conjunct1,
          unfolded r80 c80 h80 if_P [OF y80] d80])
  from g16 g18 g80 p16 p80 show ?thesis
    unfolding r16 r18 r80 h16 h18 h80 using f16 by blast
qed

text \<open>
  The claim as stated fails on both validators. With 23 failed tests out of 80 the exact
  percentage is 28.75, which rounds half away from zero to 28.8; the float64 product
  \<^verbatim>\<open>23.0 / 80.0 * 100 * 10\<close> is below 287.5, \<^verbatim>\<open>math.Round\<close> gives 287, and the Go
  validator reports 28.7. With 2 failed tests out of 3 the shell validator computes
  \<^verbatim>\<open>2 * 1000 / 3 = 666\<close> and shows 66.6, where rounding gives 66.7.
\<close>

theorem reported_score_rounding_counterexample:
  "GapScore (Report (buildReport (sealed_of 23 57) [] False))
     \<noteq> fl (round_half_away_1dp (raw_percent (sealed_of 23 57)))
   \<and> of_int (sint (GAP_SCORE_X10 3 2)) / 10 \<noteq> round_half_away_1dp (2 / 3 * 100)
   \<and> GapScore (Report (buildReport (sealed_of 23 57) [] False)) = fl (287 / 10)
   \<and> round_half_away_1dp (raw_percent (sealed_of 23 57)) = 288 / 10
   \<and> GAP_SCORE_X10 3 2 = 666
   \<and> round_half_away_1dp (2 / 3 * 100) = 667 / 10"
proof -
  have r: "raw_percent (sealed_of 23 57) = 115 / 4"
    by (simp add: raw_percent_def sealed_of_counts)
  have h: "round_half_away_1dp (115 / 4) = 288 / 10"
    by code_simp
  have g: "GapScore (Report (buildReport (sealed_of 23 57) [] False)) = fl (287 / 10)"
    by (simp add: GapScore_buildReport sealed_of_counts score_23_of_80)
  have x: "GAP_SCORE_X10 3 2 = 666"
    by (simp add: GAP_SCORE_X10_def sh_div_def)
  have h2: "round_half_away_1dp (2 / 3 * 100) = 667 / 10"
    by code_simp
  have go: "GapScore (Report (buildReport (sealed_of 23 57) [] False))
              \<noteq> fl (round_half_away_1dp (raw_percent (sealed_of 23 57)))"
    unfolding g r h by code_simp
  have sh: "of_int (sint (GAP_SCORE_X10 3 2)) / 10 \<noteq> round_half_away_1dp (2 / 3 * 100)"
    unfolding x h2 by simp
  have h': "round_half_away_1dp (raw_percent (sealed_of 23 57)) = 288 / 10"
    unfolding r by (rule h)
  from go sh g h' x h2 show ?thesis by blast
qed

end
